theory Spec2Isabelle
  imports Main "HOL-Library.Monad_Syntax" "HOL-Library.Option_ord" "HOL-Library.Multiset"
begin

section \<open>The half-edge mesh of MeshLib (core/Mesh/mesh.h)\<close>

text \<open>
  The mesh is a graph of heap objects linked by raw pointers. Each kind of object lives
  in a store of its own, a partial map from addresses to records; a pointer is an
  optional address, \<open>None\<close> being \<open>NULL\<close>. \<open>new\<close> takes the next address of the store,
  which no object has had before; \<open>delete\<close> removes the cell. Every operation runs in the option monad: \<open>None\<close>
  is abnormal termination of the C++ program (dereferencing \<open>NULL\<close> or a deleted object,
  a failed \<open>assert\<close>, or any other undefined behaviour).

  The geometric payload (point, normal, uv, trait strings, the touched flags) takes no
  part in the topology and is left out. Vertex and face ids are C++ \<open>int\<close>s; they are only
  stored and compared, so they are modelled as mathematical integers.
\<close>

type_synonym vref = nat
type_synonym eref = nat
type_synonym fref = nat
type_synonym href = nat

type_synonym vptr = "vref option"
type_synonym eptr = "eref option"
type_synonym fptr = "fref option"
type_synonym hptr = "href option"

text \<open>\<open>CVertex\<close>: \<open>m_id\<close>, \<open>m_halfedge\<close>, \<open>m_boundary\<close>, the vector \<open>m_halfedges\<close> (which
  \<open>create_face\<close> fills through \<open>in_halfedges()\<close>) and the candidate-edge list \<open>m_ledges\<close>.\<close>

record CVertex =
  v_id :: int
  v_halfedge :: hptr
  v_boundary :: bool
  v_halfedges :: "href list"
  v_ledges :: "eref list"

text \<open>\<open>CEdge\<close>: the array \<open>m_halfedge[2]\<close>.\<close>

record CEdge =
  e_halfedge0 :: hptr
  e_halfedge1 :: hptr

record CFace =
  f_id :: int
  f_halfedge :: hptr

record CHalfEdge =
  h_edge :: eptr
  h_face :: fptr
  h_vertex :: vptr
  h_prev :: hptr
  h_next :: hptr

text \<open>The lines the operations print on \<open>std::cout\<close> and \<open>std::cerr\<close>.\<close>

datatype message =
    Illegal_Face_Construction int
  | SwapEdge_Warning_Two_edges_share_same_both_end_vertices
  | Error_line
  | CLoop_divide_can_not_find_the_starting_vertex
  | CLoop_divide_error

text \<open>\<open>CBaseMesh\<close> with the two counters of \<open>CDynamicMesh\<close>. The four \<open>fresh\<close> fields are
  the allocator: the next address \<open>new\<close> hands out in each store. \<open>console\<close> collects what
  the program has printed.\<close>

record mesh =
  vertex_heap :: "vref \<Rightarrow> CVertex option"
  edge_heap :: "eref \<Rightarrow> CEdge option"
  face_heap :: "fref \<Rightarrow> CFace option"
  halfedge_heap :: "href \<Rightarrow> CHalfEdge option"
  fresh_v :: nat
  fresh_e :: nat
  fresh_f :: nat
  fresh_h :: nat
  m_edges :: "eref list"
  m_halfedges :: "href list"
  m_verts :: "vref list"
  m_faces :: "fref list"
  m_map_vert :: "int \<Rightarrow> vptr option"
  m_map_face :: "int \<Rightarrow> fptr option"
  m_vertex_id :: int
  m_face_id :: int
  console :: "message list"

definition empty_mesh :: mesh where
  "empty_mesh = \<lparr> vertex_heap = (\<lambda>_. None), edge_heap = (\<lambda>_. None), face_heap = (\<lambda>_. None),
     halfedge_heap = (\<lambda>_. None), fresh_v = 0, fresh_e = 0, fresh_f = 0, fresh_h = 0,
     m_edges = [], m_halfedges = [], m_verts = [], m_faces = [],
     m_map_vert = (\<lambda>_. None), m_map_face = (\<lambda>_. None), m_vertex_id = 0, m_face_id = 0,
     console = [] \<rparr>"

definition num_vertices :: "mesh \<Rightarrow> nat" where
  "num_vertices m = length (m_verts m)"

definition num_edges :: "mesh \<Rightarrow> nat" where
  "num_edges m = length (m_edges m)"

definition num_faces :: "mesh \<Rightarrow> nat" where
  "num_faces m = length (m_faces m)"

subsection \<open>Dereferencing and assignment through pointers\<close>

text \<open>Only addresses that \<open>new\<close> has handed out hold objects.\<close>

definition deref_v :: "mesh \<Rightarrow> vptr \<Rightarrow> CVertex option" where
  "deref_v m p = (case p of None \<Rightarrow> None
     | Some v \<Rightarrow> if v < fresh_v m then vertex_heap m v else None)"

definition deref_e :: "mesh \<Rightarrow> eptr \<Rightarrow> CEdge option" where
  "deref_e m p = (case p of None \<Rightarrow> None
     | Some e \<Rightarrow> if e < fresh_e m then edge_heap m e else None)"

definition deref_f :: "mesh \<Rightarrow> fptr \<Rightarrow> CFace option" where
  "deref_f m p = (case p of None \<Rightarrow> None
     | Some f \<Rightarrow> if f < fresh_f m then face_heap m f else None)"

definition deref_h :: "mesh \<Rightarrow> hptr \<Rightarrow> CHalfEdge option" where
  "deref_h m p = (case p of None \<Rightarrow> None
     | Some h \<Rightarrow> if h < fresh_h m then halfedge_heap m h else None)"

definition upd_v :: "mesh \<Rightarrow> vptr \<Rightarrow> (CVertex \<Rightarrow> CVertex) \<Rightarrow> mesh option" where
  "upd_v m p g = do { r \<leftarrow> deref_v m p;
                      Some (m\<lparr>vertex_heap := (vertex_heap m)(the p \<mapsto> g r)\<rparr>) }"

definition upd_e :: "mesh \<Rightarrow> eptr \<Rightarrow> (CEdge \<Rightarrow> CEdge) \<Rightarrow> mesh option" where
  "upd_e m p g = do { r \<leftarrow> deref_e m p;
                      Some (m\<lparr>edge_heap := (edge_heap m)(the p \<mapsto> g r)\<rparr>) }"

definition upd_f :: "mesh \<Rightarrow> fptr \<Rightarrow> (CFace \<Rightarrow> CFace) \<Rightarrow> mesh option" where
  "upd_f m p g = do { r \<leftarrow> deref_f m p;
                      Some (m\<lparr>face_heap := (face_heap m)(the p \<mapsto> g r)\<rparr>) }"

definition upd_h :: "mesh \<Rightarrow> hptr \<Rightarrow> (CHalfEdge \<Rightarrow> CHalfEdge) \<Rightarrow> mesh option" where
  "upd_h m p g = do { r \<leftarrow> deref_h m p;
                      Some (m\<lparr>halfedge_heap := (halfedge_heap m)(the p \<mapsto> g r)\<rparr>) }"

text \<open>\<open>assert(c)\<close>: compiled out when \<open>NDEBUG\<close> is defined (\<open>nd\<close>), otherwise it aborts
  the program when \<open>c\<close> is false.\<close>

definition assert_that :: "bool \<Rightarrow> bool \<Rightarrow> unit option" where
  "assert_that nd c = (if nd \<or> c then Some () else None)"

text \<open>An \<open>assert\<close> whose condition dereferences pointers: the condition is evaluated only
  when assertions are enabled.\<close>

definition assert_eval :: "bool \<Rightarrow> bool option \<Rightarrow> unit option" where
  "assert_eval nd c = (if nd then Some () else do { b \<leftarrow> c; if b then Some () else None })"

subsection \<open>The accessors of \<open>CHalfEdge\<close> and \<open>CEdge\<close>\<close>

definition he_vertex :: "mesh \<Rightarrow> hptr \<Rightarrow> vptr option" where
  "he_vertex m h = map_option h_vertex (deref_h m h)"

definition he_target :: "mesh \<Rightarrow> hptr \<Rightarrow> vptr option" where
  "he_target m h = map_option h_vertex (deref_h m h)"

definition he_prev :: "mesh \<Rightarrow> hptr \<Rightarrow> hptr option" where
  "he_prev m h = map_option h_prev (deref_h m h)"

definition he_next :: "mesh \<Rightarrow> hptr \<Rightarrow> hptr option" where
  "he_next m h = map_option h_next (deref_h m h)"

definition he_edge :: "mesh \<Rightarrow> hptr \<Rightarrow> eptr option" where
  "he_edge m h = map_option h_edge (deref_h m h)"

definition he_face :: "mesh \<Rightarrow> hptr \<Rightarrow> fptr option" where
  "he_face m h = map_option h_face (deref_h m h)"

text \<open>\<open>source()\<close> is \<open>m_prev->vertex()\<close>.\<close>

definition he_source :: "mesh \<Rightarrow> hptr \<Rightarrow> vptr option" where
  "he_source m h = do { p \<leftarrow> he_prev m h; he_vertex m p }"

text \<open>\<open>CEdge::halfedge(id)\<close> with its \<open>assert(0 <= id && id < 2)\<close>.\<close>

definition e_halfedge :: "bool \<Rightarrow> mesh \<Rightarrow> eptr \<Rightarrow> nat \<Rightarrow> hptr option" where
  "e_halfedge nd m e i = do {
     r \<leftarrow> deref_e m e;
     _ \<leftarrow> assert_that nd (i < 2);
     if i = 0 then Some (e_halfedge0 r) else if i = 1 then Some (e_halfedge1 r) else None }"

definition set_e_halfedge :: "bool \<Rightarrow> mesh \<Rightarrow> eptr \<Rightarrow> nat \<Rightarrow> hptr \<Rightarrow> mesh option" where
  "set_e_halfedge nd m e i h = do {
     _ \<leftarrow> deref_e m e;
     _ \<leftarrow> assert_that nd (i < 2);
     if i = 0 then upd_e m e (\<lambda>r. r\<lparr>e_halfedge0 := h\<rparr>)
     else if i = 1 then upd_e m e (\<lambda>r. r\<lparr>e_halfedge1 := h\<rparr>) else None }"

text \<open>\<open>CEdge::other(he)\<close>: \<open>(he != m_halfedge[0]) ? m_halfedge[0] : m_halfedge[1]\<close>.\<close>

definition e_other :: "mesh \<Rightarrow> eptr \<Rightarrow> hptr \<Rightarrow> hptr option" where
  "e_other m e h = do {
     r \<leftarrow> deref_e m e;
     Some (if h \<noteq> e_halfedge0 r then e_halfedge0 r else e_halfedge1 r) }"

text \<open>\<open>dual()\<close> is \<open>m_edge->other(this)\<close>.\<close>

definition he_dual :: "mesh \<Rightarrow> hptr \<Rightarrow> hptr option" where
  "he_dual m h = do { e \<leftarrow> he_edge m h; e_other m e h }"

text \<open>\<open>CEdge::boundary()\<close>, \<open>vertex1()\<close> and \<open>vertex2()\<close>; the latter two assert that slot 0
  is filled before they follow it.\<close>

definition e_boundary :: "mesh \<Rightarrow> eptr \<Rightarrow> bool option" where
  "e_boundary m e = do { r \<leftarrow> deref_e m e; Some (e_halfedge0 r = None \<or> e_halfedge1 r = None) }"

definition e_vertex1 :: "bool \<Rightarrow> mesh \<Rightarrow> eptr \<Rightarrow> vptr option" where
  "e_vertex1 nd m e = do {
     r \<leftarrow> deref_e m e;
     _ \<leftarrow> assert_that nd (e_halfedge0 r \<noteq> None);
     he_source m (e_halfedge0 r) }"

definition e_vertex2 :: "bool \<Rightarrow> mesh \<Rightarrow> eptr \<Rightarrow> vptr option" where
  "e_vertex2 nd m e = do {
     r \<leftarrow> deref_e m e;
     _ \<leftarrow> assert_that nd (e_halfedge0 r \<noteq> None);
     he_target m (e_halfedge0 r) }"

subsection \<open>Allocation\<close>

text \<open>The constructors set the pointers to \<open>NULL\<close> and \<open>m_boundary\<close> to false. The ids are
  left uninitialised by the constructors and assigned by every caller before they are
  read; the model starts them at 0.\<close>

definition new_CVertex :: "mesh \<Rightarrow> vref \<times> mesh" where
  "new_CVertex m = (fresh_v m,
     m\<lparr>vertex_heap := (vertex_heap m)(fresh_v m \<mapsto>
          \<lparr>v_id = 0, v_halfedge = None, v_boundary = False, v_halfedges = [], v_ledges = []\<rparr>),
       fresh_v := Suc (fresh_v m)\<rparr>)"

definition new_CEdge :: "mesh \<Rightarrow> eref \<times> mesh" where
  "new_CEdge m = (fresh_e m,
     m\<lparr>edge_heap := (edge_heap m)(fresh_e m \<mapsto> \<lparr>e_halfedge0 = None, e_halfedge1 = None\<rparr>),
       fresh_e := Suc (fresh_e m)\<rparr>)"

definition new_CFace :: "mesh \<Rightarrow> fref \<times> mesh" where
  "new_CFace m = (fresh_f m,
     m\<lparr>face_heap := (face_heap m)(fresh_f m \<mapsto> \<lparr>f_id = 0, f_halfedge = None\<rparr>),
       fresh_f := Suc (fresh_f m)\<rparr>)"

definition new_CHalfEdge :: "mesh \<Rightarrow> href \<times> mesh" where
  "new_CHalfEdge m = (fresh_h m,
     m\<lparr>halfedge_heap := (halfedge_heap m)(fresh_h m \<mapsto>
          \<lparr>h_edge = None, h_face = None, h_vertex = None, h_prev = None, h_next = None\<rparr>),
       fresh_h := Suc (fresh_h m)\<rparr>)"

subsection \<open>\<open>create_vertex\<close> and the lookup \<open>vertex(id)\<close>\<close>

text \<open>\<open>std::map::insert\<close> keeps an existing binding.\<close>

definition map_insert :: "('k \<Rightarrow> 'v option) \<Rightarrow> 'k \<Rightarrow> 'v \<Rightarrow> ('k \<Rightarrow> 'v option)" where
  "map_insert mp k x = (case mp k of None \<Rightarrow> mp(k \<mapsto> x) | Some _ \<Rightarrow> mp)"

definition create_vertex :: "mesh \<Rightarrow> int \<Rightarrow> (vref \<times> mesh) option" where
  "create_vertex m ident = do {
     let (v, m1) = new_CVertex m;
     m2 \<leftarrow> upd_v m1 (Some v) (\<lambda>r. r\<lparr>v_id := ident\<rparr>);
     let m3 = m2\<lparr>m_verts := m_verts m2 @ [v]\<rparr>;
     let m4 = m3\<lparr>m_map_vert := map_insert (m_map_vert m3) ident (Some v)\<rparr>;
     Some (v, m4) }"

text \<open>\<open>vertex(id)\<close> is \<open>m_map_vert[id]\<close>: \<open>operator[]\<close> binds a missing key to \<open>NULL\<close>.\<close>

definition vertex :: "mesh \<Rightarrow> int \<Rightarrow> vptr \<times> mesh" where
  "vertex m ident = (case m_map_vert m ident of
       Some p \<Rightarrow> (p, m)
     | None \<Rightarrow> (None, m\<lparr>m_map_vert := (m_map_vert m)(ident \<mapsto> None)\<rparr>))"

subsection \<open>\<open>create_edge\<close>\<close>

text \<open>The \<open>for\<close> loop over the candidate list: \<open>Some (Some e)\<close> when the loop returns \<open>e\<close>,
  \<open>Some None\<close> when it runs to the end.\<close>

fun search_ledges :: "bool \<Rightarrow> mesh \<Rightarrow> vptr \<Rightarrow> vptr \<Rightarrow> eref list \<Rightarrow> eptr option" where
  "search_ledges nd m v1 v2 [] = Some None"
| "search_ledges nd m v1 v2 (pE # rest) = do {
     pH \<leftarrow> e_halfedge nd m (Some pE) 0;
     s \<leftarrow> he_source m pH;
     t \<leftarrow> he_target m pH;
     if s = v1 \<and> t = v2 then Some (Some pE)
     else if s = v2 \<and> t = v1 then Some (Some pE)
     else search_ledges nd m v1 v2 rest }"

definition create_edge :: "bool \<Rightarrow> mesh \<Rightarrow> vptr \<Rightarrow> vptr \<Rightarrow> (eref \<times> mesh) option" where
  "create_edge nd m v1 v2 = do {
     r1 \<leftarrow> deref_v m v1;
     r2 \<leftarrow> deref_v m v2;
     let pV = (if v_id r1 < v_id r2 then v1 else v2);
     rV \<leftarrow> deref_v m pV;
     found \<leftarrow> search_ledges nd m v1 v2 (v_ledges rV);
     (case found of
        Some pE \<Rightarrow> Some (pE, m)
      | None \<Rightarrow> do {
          let (e, m1) = new_CEdge m;
          let m2 = m1\<lparr>m_edges := m_edges m1 @ [e]\<rparr>;
          m3 \<leftarrow> upd_v m2 pV (\<lambda>r. r\<lparr>v_ledges := v_ledges r @ [e]\<rparr>);
          Some (e, m3) }) }"

text \<open>The lookup \<open>edge(v0, v1)\<close> runs the same search and returns \<open>NULL\<close> at the end.\<close>

definition edge :: "bool \<Rightarrow> mesh \<Rightarrow> vptr \<Rightarrow> vptr \<Rightarrow> eptr option" where
  "edge nd m v0 v1 = do {
     r0 \<leftarrow> deref_v m v0;
     r1 \<leftarrow> deref_v m v1;
     let pV = (if v_id r0 < v_id r1 then v0 else v1);
     rV \<leftarrow> deref_v m pV;
     search_ledges nd m v0 v1 (v_ledges rV) }"

subsection \<open>\<open>create_face\<close>\<close>

fun for_each :: "'a list \<Rightarrow> ('a \<Rightarrow> mesh \<Rightarrow> mesh option) \<Rightarrow> mesh \<Rightarrow> mesh option" where
  "for_each [] body m = Some m"
| "for_each (x # xs) body m = do { m1 \<leftarrow> body x m; for_each xs body m1 }"

text \<open>First loop: one half-edge per vertex of \<open>vs\<close>, targeting it; the vertex takes the new
  half-edge as its representative and appends it to \<open>m_halfedges\<close>. Copying \<open>uv\<close> and
  \<open>normal\<close> from the vertex dereferences it.\<close>

fun create_halfedges :: "mesh \<Rightarrow> vptr list \<Rightarrow> (href list \<times> mesh) option" where
  "create_halfedges m [] = Some ([], m)"
| "create_halfedges m (v # vs) = do {
     let (he, m1) = new_CHalfEdge m;
     m2 \<leftarrow> upd_h m1 (Some he) (\<lambda>r. r\<lparr>h_vertex := v\<rparr>);
     _ \<leftarrow> deref_v m2 v;
     m3 \<leftarrow> upd_v m2 v (\<lambda>r. r\<lparr>v_halfedge := Some he\<rparr>);
     m4 \<leftarrow> upd_v m3 v (\<lambda>r. r\<lparr>v_halfedges := v_halfedges r @ [he]\<rparr>);
     let m5 = m4\<lparr>m_halfedges := m_halfedges m4 @ [he]\<rparr>;
     (hes, m6) \<leftarrow> create_halfedges m5 vs;
     Some (he # hes, m6) }"

text \<open>Second loop: \<open>hes[i]->next() = hes[(i + 1) % n]\<close>, \<open>hes[i]->prev() = hes[(i + n - 1) % n]\<close>.\<close>

definition link_halfedge :: "href list \<Rightarrow> nat \<Rightarrow> mesh \<Rightarrow> mesh option" where
  "link_halfedge hes i m = do {
     m1 \<leftarrow> upd_h m (Some (hes ! i)) (\<lambda>r. r\<lparr>h_next := Some (hes ! ((i + 1) mod length hes))\<rparr>);
     upd_h m1 (Some (hes ! i)) (\<lambda>r. r\<lparr>h_prev := Some (hes ! ((i + length hes - 1) mod length hes))\<rparr>) }"

text \<open>Third loop: \<open>hes[i]->face() = f; f->halfedge() = hes[i]\<close>.\<close>

definition link_face :: "fref \<Rightarrow> href list \<Rightarrow> nat \<Rightarrow> mesh \<Rightarrow> mesh option" where
  "link_face f hes i m = do {
     m1 \<leftarrow> upd_h m (Some (hes ! i)) (\<lambda>r. r\<lparr>h_face := Some f\<rparr>);
     upd_f m1 (Some f) (\<lambda>r. r\<lparr>f_halfedge := Some (hes ! i)\<rparr>) }"

text \<open>Fourth loop: the edge between \<open>vs[i]\<close> and its predecessor takes \<open>hes[i]\<close> in slot 0
  when that is empty and in slot 1 otherwise. A filled slot 1 fails the \<open>assert\<close>; without
  the \<open>assert\<close> a line is printed and the slot is overwritten.\<close>

definition connect_edge :: "bool \<Rightarrow> vptr list \<Rightarrow> href list \<Rightarrow> int \<Rightarrow> nat \<Rightarrow> mesh \<Rightarrow> mesh option" where
  "connect_edge nd vs hes ident i m = do {
     (e, m1) \<leftarrow> create_edge nd m (vs ! i) (vs ! ((i + length hes - 1) mod length hes));
     s0 \<leftarrow> e_halfedge nd m1 (Some e) 0;
     m2 \<leftarrow> (if s0 = None then set_e_halfedge nd m1 (Some e) 0 (Some (hes ! i))
            else do {
              s1 \<leftarrow> e_halfedge nd m1 (Some e) 1;
              _ \<leftarrow> assert_that nd (s1 = None);
              s1' \<leftarrow> e_halfedge nd m1 (Some e) 1;
              let m1' = (if s1' \<noteq> None
                         then m1\<lparr>console := console m1 @ [Illegal_Face_Construction ident]\<rparr>
                         else m1);
              set_e_halfedge nd m1' (Some e) 1 (Some (hes ! i)) });
     upd_h m2 (Some (hes ! i)) (\<lambda>r. r\<lparr>h_edge := Some e\<rparr>) }"

text \<open>The part of \<open>create_face\<close> before the edges are connected: the face is allocated,
  appended to \<open>m_faces\<close> and registered in \<open>m_map_face\<close>, and the three loops run.\<close>

definition create_face_cycle :: "mesh \<Rightarrow> vptr list \<Rightarrow> int \<Rightarrow> (fref \<times> href list \<times> mesh) option" where
  "create_face_cycle m vs ident = do {
     let (f, m1) = new_CFace m;
     m2 \<leftarrow> upd_f m1 (Some f) (\<lambda>r. r\<lparr>f_id := ident\<rparr>);
     let m3 = m2\<lparr>m_faces := m_faces m2 @ [f]\<rparr>;
     let m4 = m3\<lparr>m_map_face := map_insert (m_map_face m3) ident (Some f)\<rparr>;
     (hes, m5) \<leftarrow> create_halfedges m4 vs;
     m6 \<leftarrow> for_each [0..<length hes] (link_halfedge hes) m5;
     m7 \<leftarrow> for_each [0..<length hes] (link_face f hes) m6;
     Some (f, hes, m7) }"

definition create_face :: "bool \<Rightarrow> mesh \<Rightarrow> vptr list \<Rightarrow> int \<Rightarrow> (fref \<times> mesh) option" where
  "create_face nd m vs ident = do {
     (f, hes, m7) \<leftarrow> create_face_cycle m vs ident;
     m8 \<leftarrow> for_each [0..<length hes] (connect_edge nd vs hes ident) m7;
     Some (f, m8) }"

subsection \<open>\<open>delete_face\<close>\<close>

text \<open>\<open>delete p\<close>: nothing for \<open>NULL\<close>; deleting an object twice is undefined.\<close>

definition delete_h :: "mesh \<Rightarrow> hptr \<Rightarrow> mesh option" where
  "delete_h m p = (case p of None \<Rightarrow> Some m
     | Some h \<Rightarrow> do { _ \<leftarrow> deref_h m p; Some (m\<lparr>halfedge_heap := (halfedge_heap m)(h := None)\<rparr>) })"

definition delete_e :: "mesh \<Rightarrow> eptr \<Rightarrow> mesh option" where
  "delete_e m p = (case p of None \<Rightarrow> Some m
     | Some e \<Rightarrow> do { _ \<leftarrow> deref_e m p; Some (m\<lparr>edge_heap := (edge_heap m)(e := None)\<rparr>) })"

definition delete_f :: "mesh \<Rightarrow> fptr \<Rightarrow> mesh option" where
  "delete_f m p = (case p of None \<Rightarrow> Some m
     | Some f \<Rightarrow> do { _ \<leftarrow> deref_f m p; Some (m\<lparr>face_heap := (face_heap m)(f := None)\<rparr>) })"

text \<open>First loop of \<open>delete_face\<close>: a target vertex whose representative is the half-edge
  being removed takes \<open>pH->next()->dual()\<close>, in both branches of the inner \<open>if\<close>.\<close>

definition reseat_target :: "bool \<Rightarrow> hptr \<Rightarrow> mesh \<Rightarrow> mesh option" where
  "reseat_target nd pH m = do {
     pV \<leftarrow> he_target m pH;
     rV \<leftarrow> deref_v m pV;
     if v_halfedge rV = pH then do {
       nx \<leftarrow> he_next m pH;
       d \<leftarrow> he_dual m nx;
       if d \<noteq> None then upd_v m pV (\<lambda>r. r\<lparr>v_halfedge := d\<rparr>)
       else do {
         _ \<leftarrow> assert_eval nd (map_option (\<lambda>d0. d0 \<noteq> None) (he_dual m pH));
         nx' \<leftarrow> he_next m pH;
         d' \<leftarrow> he_dual m nx';
         upd_v m pV (\<lambda>r. r\<lparr>v_halfedge := d'\<rparr>) } }
     else Some m }"

text \<open>Second loop: the edge keeps the dual in slot 0 and \<open>NULL\<close> in slot 1; an edge left
  without half-edge is taken out of \<open>m_edges\<close> and deleted. The two endpoints are read
  into \<open>v0\<close> and \<open>v1\<close> and not used.\<close>

definition detach_edge :: "bool \<Rightarrow> hptr \<Rightarrow> mesh \<Rightarrow> mesh option" where
  "detach_edge nd pH m = do {
     pS \<leftarrow> he_dual m pH;
     pE \<leftarrow> he_edge m pH;
     m1 \<leftarrow> set_e_halfedge nd m pE 0 pS;
     m2 \<leftarrow> set_e_halfedge nd m1 pE 1 None;
     if pS = None then do {
       let m3 = m2\<lparr>m_edges := removeAll (the pE) (m_edges m2)\<rparr>;
       v0 \<leftarrow> he_source m3 pH;
       v1 \<leftarrow> he_target m3 pH;
       delete_e m3 pE }
     else Some m2 }"

definition delete_face :: "bool \<Rightarrow> mesh \<Rightarrow> fptr \<Rightarrow> mesh option" where
  "delete_face nd m pFace = do {
     rf \<leftarrow> deref_f m pFace;
     let m1 = (case m_map_face m (f_id rf) of
                 Some _ \<Rightarrow> m\<lparr>m_map_face := (m_map_face m)(f_id rf := None)\<rparr>
               | None \<Rightarrow> m);
     let m2 = m1\<lparr>m_faces := removeAll (the pFace) (m_faces m1)\<rparr>;
     h0 \<leftarrow> map_option f_halfedge (deref_f m2 pFace);
     h1 \<leftarrow> he_next m2 h0;
     h2 \<leftarrow> he_next m2 h1;
     m3 \<leftarrow> for_each [h0, h1, h2] (reseat_target nd) m2;
     m4 \<leftarrow> for_each [h0, h1, h2] (detach_edge nd) m3;
     m5 \<leftarrow> for_each [h0, h1, h2] (\<lambda>h m. delete_h m h) m4;
     delete_f m5 pFace }"

subsection \<open>\<open>label_boundary\<close>\<close>

text \<open>First loop, over \<open>m_edges\<close>: an edge with two half-edges is reordered so that slot 0
  runs from the smaller to the larger vertex id; the two vertices of an edge with one
  half-edge are flagged as boundary.\<close>

definition label_edge :: "bool \<Rightarrow> eref \<Rightarrow> mesh \<Rightarrow> mesh option" where
  "label_edge nd e m = do {
     he0 \<leftarrow> e_halfedge nd m (Some e) 0;
     he1 \<leftarrow> e_halfedge nd m (Some e) 1;
     _ \<leftarrow> assert_that nd (he0 \<noteq> None);
     if he1 \<noteq> None then do {
       _ \<leftarrow> assert_eval nd (do {
              t0 \<leftarrow> he_target m he0; s1 \<leftarrow> he_source m he1;
              if t0 = s1 then do { s0 \<leftarrow> he_source m he0; t1 \<leftarrow> he_target m he1; Some (s0 = t1) }
              else Some False });
       t \<leftarrow> he_target m he0;
       rt \<leftarrow> deref_v m t;
       s \<leftarrow> he_source m he0;
       rs \<leftarrow> deref_v m s;
       m2 \<leftarrow> (if v_id rt < v_id rs then do {
                m1 \<leftarrow> set_e_halfedge nd m (Some e) 0 he1;
                set_e_halfedge nd m1 (Some e) 1 he0 }
              else Some m);
       _ \<leftarrow> assert_eval nd (do {
              a \<leftarrow> e_vertex1 nd m2 (Some e); ra \<leftarrow> deref_v m2 a;
              b \<leftarrow> e_vertex2 nd m2 (Some e); rb \<leftarrow> deref_v m2 b;
              Some (v_id ra < v_id rb) });
       Some m2 }
     else do {
       v \<leftarrow> he_vertex m he0;
       m1 \<leftarrow> upd_v m v (\<lambda>r. r\<lparr>v_boundary := True\<rparr>);
       p \<leftarrow> he_prev m1 he0;
       w \<leftarrow> he_vertex m1 p;
       upd_v m1 w (\<lambda>r. r\<lparr>v_boundary := True\<rparr>) } }"

text \<open>Second and third loop: the vertices without half-edge are collected, taken out of
  \<open>m_verts\<close> and deleted (\<open>m_map_vert\<close> keeps its entries).\<close>

definition delete_v :: "mesh \<Rightarrow> vptr \<Rightarrow> mesh option" where
  "delete_v m p = (case p of None \<Rightarrow> Some m
     | Some v \<Rightarrow> do { _ \<leftarrow> deref_v m p; Some (m\<lparr>vertex_heap := (vertex_heap m)(v := None)\<rparr>) })"

fun dangling_verts :: "mesh \<Rightarrow> vref list \<Rightarrow> vref list option" where
  "dangling_verts m [] = Some []"
| "dangling_verts m (v # vs) = do {
     r \<leftarrow> deref_v m (Some v);
     ds \<leftarrow> dangling_verts m vs;
     Some (if v_halfedge r \<noteq> None then ds else v # ds) }"

definition remove_dangling :: "vref \<Rightarrow> mesh \<Rightarrow> mesh option" where
  "remove_dangling v m = do {
     let m1 = m\<lparr>m_verts := removeAll v (m_verts m)\<rparr>;
     _ \<leftarrow> deref_v m1 (Some v);
     delete_v m1 (Some v) }"

definition label_boundary :: "bool \<Rightarrow> mesh \<Rightarrow> mesh option" where
  "label_boundary nd m = do {
     m1 \<leftarrow> for_each (m_edges m) (label_edge nd) m;
     ds \<leftarrow> dangling_verts m1 (m_verts m1);
     for_each ds remove_dangling m1 }"

subsection \<open>Fan traversal: \<open>most_clw_out_halfedge\<close>\<close>

text \<open>\<open>clw_rotate_about_source()\<close> is \<open>this->dual() ? this->dual()->next() : NULL\<close>.\<close>

definition clw_rotate_about_source :: "mesh \<Rightarrow> hptr \<Rightarrow> hptr option" where
  "clw_rotate_about_source m he = do {
     d \<leftarrow> he_dual m he;
     if d \<noteq> None then he_next m d else Some None }"

text \<open>The \<open>while\<close> loop of the boundary case; it runs for as long as the fan around the
  vertex goes on.\<close>

partial_function (option) clw_rotate_loop :: "mesh \<Rightarrow> hptr \<Rightarrow> hptr option" where
  "clw_rotate_loop m he = do {
     ne \<leftarrow> clw_rotate_about_source m he;
     if ne \<noteq> None then clw_rotate_loop m ne else Some he }"

declare clw_rotate_loop.simps [code]

text \<open>For an interior vertex the result is
  \<open>most_ccw_out_halfedge()->ccw_rotate_about_source()\<close>, that is
  \<open>m_halfedge->dual()->prev()->dual()\<close>; neither branch writes to the mesh.\<close>

definition most_clw_out_halfedge :: "mesh \<Rightarrow> vptr \<Rightarrow> hptr option" where
  "most_clw_out_halfedge m v = do {
     rv \<leftarrow> deref_v m v;
     if \<not> v_boundary rv then do {
       d \<leftarrow> he_dual m (v_halfedge rv);
       p \<leftarrow> he_prev m d;
       he_dual m p }
     else do {
       he \<leftarrow> he_next m (v_halfedge rv);
       clw_rotate_loop m he } }"

section \<open>Boundary loops (core/Mesh/boundary.h)\<close>

text \<open>\<open>CLoop\<close>: the traced half-edges, the accumulated length, the starting half-edge and
  the segments that \<open>divide\<close> appends. The length of an edge is a \<open>double\<close> that the
  library never assigns; it is a parameter \<open>elen\<close> of the tracer, with values in a linear
  order that has an addition (the \<open>double\<close>s without NaN).\<close>

record 'l CLoop =
  l_halfedges :: "hptr list"
  l_length :: 'l
  l_pHalfedge :: hptr
  l_segments :: "hptr list list"

text \<open>The \<open>do ... while (he != m_pHalfedge)\<close> of the \<open>CLoop\<close> constructor.\<close>

partial_function (option) trace_loop ::
    "(eref \<Rightarrow> 'l::{plus,zero,linorder}) \<Rightarrow> mesh \<Rightarrow> hptr \<Rightarrow> hptr \<Rightarrow> hptr list \<Rightarrow> 'l \<Rightarrow> (hptr list \<times> 'l) option" where
  "trace_loop elen m pH he acc len = do {
     v \<leftarrow> he_target m he;
     he' \<leftarrow> most_clw_out_halfedge m v;
     e \<leftarrow> he_edge m he';
     _ \<leftarrow> deref_e m e;
     let acc' = acc @ [he'];
     let len' = len + elen (the e);
     if he' \<noteq> pH then trace_loop elen m pH he' acc' len' else Some (acc', len') }"

declare trace_loop.simps [code]

definition new_CLoop :: "(eref \<Rightarrow> 'l::{plus,zero,linorder}) \<Rightarrow> mesh \<Rightarrow> hptr \<Rightarrow> 'l CLoop option" where
  "new_CLoop elen m pH = do {
     (hs, len) \<leftarrow> trace_loop elen m pH pH [] 0;
     Some \<lparr>l_halfedges = hs, l_length = len, l_pHalfedge = pH, l_segments = []\<rparr> }"

text \<open>\<open>_bubble_sort\<close>: one pass of the inner loop with its flag, and the outer loop, which
  makes at most as many passes as there are loops and stops after a pass without swap.\<close>

fun bubble_pass :: "'l::linorder CLoop list \<Rightarrow> 'l CLoop list \<times> bool" where
  "bubble_pass (x # y # zs) =
     (if l_length y > l_length x
      then (let (r, _) = bubble_pass (x # zs) in (y # r, True))
      else (let (r, flag) = bubble_pass (y # zs) in (x # r, flag)))"
| "bubble_pass xs = (xs, False)"

fun bubble_passes :: "nat \<Rightarrow> 'l::linorder CLoop list \<Rightarrow> 'l CLoop list" where
  "bubble_passes 0 loops = loops"
| "bubble_passes (Suc k) loops =
     (let (r, flag) = bubble_pass loops in if flag then bubble_passes k r else r)"

definition bubble_sort :: "'l::linorder CLoop list \<Rightarrow> 'l CLoop list" where
  "bubble_sort loops = bubble_passes (length loops) loops"

text \<open>The \<open>CBoundary\<close> constructor. The \<open>std::set\<close> of candidate half-edges is a strictly
  sorted list of pointers; \<open>*begin()\<close> is its head.\<close>

definition set_insert :: "hptr \<Rightarrow> hptr list \<Rightarrow> hptr list" where
  "set_insert h s = (if h \<in> set s then s else insort h s)"

fun collect_boundary :: "mesh \<Rightarrow> eref list \<Rightarrow> hptr list \<Rightarrow> hptr list option" where
  "collect_boundary m [] s = Some s"
| "collect_boundary m (e # es) s = do {
     b \<leftarrow> e_boundary m (Some e);
     if \<not> b then collect_boundary m es s
     else do {
       he \<leftarrow> map_option e_halfedge0 (deref_e m (Some e));
       collect_boundary m es (set_insert he s) } }"

fun erase_all :: "hptr list \<Rightarrow> hptr list \<Rightarrow> hptr list" where
  "erase_all [] s = s"
| "erase_all (h # hs) s = erase_all hs (if h \<in> set s then removeAll h s else s)"

partial_function (option) trace_all ::
    "(eref \<Rightarrow> 'l::{plus,zero,linorder}) \<Rightarrow> mesh \<Rightarrow> hptr list \<Rightarrow> 'l CLoop list \<Rightarrow> 'l CLoop list option" where
  "trace_all elen m s loops =
     (case s of
        [] \<Rightarrow> Some loops
      | he # _ \<Rightarrow> do {
          pL \<leftarrow> new_CLoop elen m he;
          trace_all elen m (erase_all (l_halfedges pL) s) (loops @ [pL]) })"

declare trace_all.simps [code]

definition new_CBoundary :: "(eref \<Rightarrow> 'l::{plus,zero,linorder}) \<Rightarrow> mesh \<Rightarrow> 'l CLoop list option" where
  "new_CBoundary elen m = do {
     s \<leftarrow> collect_boundary m (m_edges m) [];
     loops \<leftarrow> trace_all elen m s [];
     Some (bubble_sort loops) }"

subsection \<open>\<open>CLoop::divide\<close>\<close>

text \<open>The first loop of \<open>divide\<close>: the deque is rotated until its front half-edge starts at
  \<open>markers[0]\<close>, or until \<open>n\<close> exceeds the size. \<open>front()\<close> of an empty deque is undefined.\<close>

function rotate_to_marker :: "mesh \<Rightarrow> vptr \<Rightarrow> hptr list \<Rightarrow> nat \<Rightarrow> (hptr list \<times> nat) option" where
  "rotate_to_marker m mk q n =
     (case q of
        [] \<Rightarrow> None
      | pH # rest \<Rightarrow> do {
          s \<leftarrow> he_source m pH;
          if s = mk then Some (q, n)
          else if Suc n > length (rest @ [pH]) then Some (rest @ [pH], Suc n)
          else rotate_to_marker m mk (rest @ [pH]) (Suc n) })"
  by pat_completeness auto
termination
  by (relation "measure (\<lambda>(m, mk, q, n). Suc (length q) - n)") auto

text \<open>The inner \<open>while\<close> of the second loop: half-edges are taken from the front until one
  ends at the next marker. \<open>Inl\<close> is the early \<open>return\<close> after \<open>CLoop::divide error\<close>.\<close>

fun take_segment :: "mesh \<Rightarrow> vptr \<Rightarrow> hptr \<Rightarrow> hptr list \<Rightarrow> hptr list \<Rightarrow> (unit + hptr list \<times> hptr list) option" where
  "take_segment m nxt ph hes q = do {
     t \<leftarrow> he_target m ph;
     if t \<noteq> nxt then
       (case q of
          [] \<Rightarrow> Some (Inl ())
        | ph' # rest \<Rightarrow> take_segment m nxt ph' (hes @ [ph']) rest)
     else Some (Inr (hes, q)) }"

text \<open>The second loop, over the markers. Each round starts with \<open>queue.front()\<close>.\<close>

fun divide_segments :: "bool \<Rightarrow> mesh \<Rightarrow> vptr list \<Rightarrow> nat list \<Rightarrow> hptr list \<Rightarrow> hptr list list
    \<Rightarrow> (hptr list list \<times> message list) option" where
  "divide_segments nd m markers [] q segs = Some (segs, [])"
| "divide_segments nd m markers (i # is) q segs =
     (case q of
        [] \<Rightarrow> None
      | ph # rest \<Rightarrow> do {
          _ \<leftarrow> assert_eval nd (map_option (\<lambda>s. s = markers ! i) (he_source m ph));
          r \<leftarrow> take_segment m (markers ! ((i + 1) mod length markers)) ph [ph] rest;
          (case r of
             Inl _ \<Rightarrow> Some (segs, [CLoop_divide_error])
           | Inr (hes, q') \<Rightarrow> divide_segments nd m markers is q' (segs @ [hes])) })"

text \<open>\<open>divide\<close> returns the loop with its segments and the lines printed on \<open>std::cerr\<close>.\<close>

definition divide :: "bool \<Rightarrow> mesh \<Rightarrow> 'l CLoop \<Rightarrow> vptr list \<Rightarrow> ('l CLoop \<times> message list) option" where
  "divide nd m lp markers = do {
     mk \<leftarrow> (if markers = [] then None else Some (markers ! 0));
     (q, n) \<leftarrow> rotate_to_marker m mk (l_halfedges lp) 0;
     if n > length q then Some (lp, [CLoop_divide_can_not_find_the_starting_vertex])
     else do {
       (segs, out) \<leftarrow> divide_segments nd m markers [0..<length markers] q (l_segments lp);
       Some (lp\<lparr>l_segments := segs\<rparr>, out) } }"

section \<open>The dynamic editor (core/Mesh/dynamicmesh.h)\<close>

text \<open>\<open>__attach_halfedge_to_edge(he0, he1, e)\<close>.\<close>

definition attach_halfedge_to_edge :: "bool \<Rightarrow> mesh \<Rightarrow> hptr \<Rightarrow> hptr \<Rightarrow> eptr \<Rightarrow> mesh option" where
  "attach_halfedge_to_edge nd m he0 he1 e = do {
     m1 \<leftarrow> set_e_halfedge nd m e 0 he0;
     m2 \<leftarrow> set_e_halfedge nd m1 e 1 he1;
     m3 \<leftarrow> upd_h m2 he0 (\<lambda>r. r\<lparr>h_edge := e\<rparr>);
     upd_h m3 he1 (\<lambda>r. r\<lparr>h_edge := e\<rparr>) }"

text \<open>The block that \<open>splitFace\<close> and \<open>splitEdge\<close> repeat for each new face: the face is
  allocated, takes the next face id and is appended to \<open>m_faces\<close> (not to \<open>m_map_face\<close>);
  three half-edges are allocated (not appended to \<open>m_halfedges\<close>), linked into a cycle
  and to the face.\<close>

definition new_triangle :: "mesh \<Rightarrow> (fref \<times> href list \<times> mesh) option" where
  "new_triangle m = do {
     let (f, m1) = new_CFace m;
     let m2 = m1\<lparr>m_face_id := m_face_id m1 + 1\<rparr>;
     m3 \<leftarrow> upd_f m2 (Some f) (\<lambda>r. r\<lparr>f_id := m_face_id m2\<rparr>);
     let m4 = m3\<lparr>m_faces := m_faces m3 @ [f]\<rparr>;
     let (a, m5) = new_CHalfEdge m4;
     let (b, m6) = new_CHalfEdge m5;
     let (c, m7) = new_CHalfEdge m6;
     m8 \<leftarrow> for_each [0..<3] (link_halfedge [a, b, c]) m7;
     m9 \<leftarrow> for_each [0..<3] (link_face f [a, b, c]) m8;
     Some (f, [a, b, c], m9) }"

text \<open>Three new edges, each appended to \<open>m_edges\<close> (and to no candidate list).\<close>

definition new_edge_pushed :: "mesh \<Rightarrow> eref \<times> mesh" where
  "new_edge_pushed m = (let (e, m1) = new_CEdge m in (e, m1\<lparr>m_edges := m_edges m1 @ [e]\<rparr>))"

definition set_vertex :: "mesh \<Rightarrow> hptr \<Rightarrow> vptr \<Rightarrow> mesh option" where
  "set_vertex m h v = upd_h m h (\<lambda>r. r\<lparr>h_vertex := v\<rparr>)"

definition set_v_halfedge :: "mesh \<Rightarrow> vptr \<Rightarrow> hptr \<Rightarrow> mesh option" where
  "set_v_halfedge m v h = upd_v m v (\<lambda>r. r\<lparr>v_halfedge := h\<rparr>)"

text \<open>The last loop of \<open>splitFace\<close>: \<open>v[i]->halfedge() = hs[i]->dual()\<close>.\<close>

definition reseat_from_dual :: "vptr \<times> hptr \<Rightarrow> mesh \<Rightarrow> mesh option" where
  "reseat_from_dual vh m = do { d \<leftarrow> he_dual m (snd vh); set_v_halfedge m (fst vh) d }"

definition splitFace :: "bool \<Rightarrow> mesh \<Rightarrow> fptr \<Rightarrow> (vref \<times> mesh) option" where
  "splitFace nd m pFace = do {
     let m0 = m\<lparr>m_vertex_id := m_vertex_id m + 1\<rparr>;
     (pV, m1) \<leftarrow> create_vertex m0 (m_vertex_id m0);
     h0 \<leftarrow> map_option f_halfedge (deref_f m1 pFace);
     h1 \<leftarrow> he_next m1 h0;
     h2 \<leftarrow> he_next m1 h1;
     v0 \<leftarrow> he_target m1 h0; eg0 \<leftarrow> he_edge m1 h0; hs0 \<leftarrow> he_dual m1 h0;
     v1 \<leftarrow> he_target m1 h1; eg1 \<leftarrow> he_edge m1 h1; hs1 \<leftarrow> he_dual m1 h1;
     v2 \<leftarrow> he_target m1 h2; eg2 \<leftarrow> he_edge m1 h2; hs2 \<leftarrow> he_dual m1 h2;
     (f, hes, m2) \<leftarrow> new_triangle m1;
     (f', hes2, m3) \<leftarrow> new_triangle m2;
     let (e0, m4) = new_edge_pushed m3;
     let (e1, m5) = new_edge_pushed m4;
     let (e2, m6) = new_edge_pushed m5;
     m7 \<leftarrow> attach_halfedge_to_edge nd m6 h1 (Some (hes ! 0)) (Some e0);
     m8 \<leftarrow> attach_halfedge_to_edge nd m7 (Some (hes ! 2)) (Some (hes2 ! 1)) (Some e1);
     m9 \<leftarrow> attach_halfedge_to_edge nd m8 h2 (Some (hes2 ! 0)) (Some e2);
     m10 \<leftarrow> attach_halfedge_to_edge nd m9 h0 hs0 eg0;
     m11 \<leftarrow> attach_halfedge_to_edge nd m10 (Some (hes ! 1)) hs1 eg1;
     m12 \<leftarrow> attach_halfedge_to_edge nd m11 (Some (hes2 ! 2)) hs2 eg2;
     m13 \<leftarrow> set_v_halfedge m12 (Some pV) h1;
     m14 \<leftarrow> set_vertex m13 h1 (Some pV);
     m15 \<leftarrow> set_vertex m14 h2 v2;
     m16 \<leftarrow> set_vertex m15 (Some (hes ! 0)) v0;
     m17 \<leftarrow> set_vertex m16 (Some (hes ! 1)) v1;
     m18 \<leftarrow> set_vertex m17 (Some (hes ! 2)) (Some pV);
     m19 \<leftarrow> set_vertex m18 (Some (hes2 ! 0)) (Some pV);
     m20 \<leftarrow> set_vertex m19 (Some (hes2 ! 1)) v1;
     m21 \<leftarrow> set_vertex m20 (Some (hes2 ! 2)) v2;
     m22 \<leftarrow> for_each [(v0, hs0), (v1, hs1), (v2, hs2)] reseat_from_dual m21;
     Some (pV, m22) }"

text \<open>\<open>swapEdge\<close>. A boundary edge returns at once. For an interior edge the six
  half-edges, the four vertices and the slot indices are read; then lines 274 and 278
  bind the references \<open>ledges\<close> and \<open>wedges\<close>, of type \<open>std::list<CEdge*>&\<close>, to the
  \<open>std::vector<CEdge*>\<close> objects that \<open>CVertex::edges()\<close> returns (mesh.h line 196), by a
  C-style cast. The loop at line 280 iterates through \<open>wedges\<close> unconditionally, and
  lines 330 to 350 search, erase from and push to the two references: every path through
  an interior edge accesses a vector as a list, which is undefined behaviour. The model
  ends there with \<open>None\<close>; no statement of the function touches \<open>m_ledges\<close>.\<close>

definition slot_index :: "bool \<Rightarrow> mesh \<Rightarrow> hptr \<Rightarrow> (eptr \<times> nat) option" where
  "slot_index nd m he = do {
     e \<leftarrow> he_edge m he;
     s0 \<leftarrow> e_halfedge nd m e 0;
     if s0 = he then Some (e, 0)
     else do {
       s1 \<leftarrow> e_halfedge nd m e 1;
       _ \<leftarrow> assert_that nd (s1 = he);
       Some (e, 1) } }"

definition swapEdge :: "bool \<Rightarrow> mesh \<Rightarrow> eptr \<Rightarrow> mesh option" where
  "swapEdge nd m edg = do {
     he_left \<leftarrow> e_halfedge nd m edg 0;
     he_right \<leftarrow> e_halfedge nd m edg 1;
     if he_right = None then Some m
     else do {
       let ph0 = he_left;
       ph1 \<leftarrow> he_next m ph0;
       ph2 \<leftarrow> he_next m ph1;
       let ph3 = he_right;
       ph4 \<leftarrow> he_next m ph3;
       ph5 \<leftarrow> he_next m ph4;
       pv0 \<leftarrow> he_target m ph0;
       pv1 \<leftarrow> he_target m ph1;
       pv2 \<leftarrow> he_target m ph2;
       pv3 \<leftarrow> he_target m ph4;
       pe0 \<leftarrow> slot_index nd m ph0;
       pe1 \<leftarrow> slot_index nd m ph1;
       pe2 \<leftarrow> slot_index nd m ph2;
       pe3 \<leftarrow> slot_index nd m ph3;
       pe4 \<leftarrow> slot_index nd m ph4;
       pe5 \<leftarrow> slot_index nd m ph5;
       r0 \<leftarrow> deref_v m pv0;
       r2 \<leftarrow> deref_v m pv2;
       let vb = (if v_id r0 < v_id r2 then pv0 else pv2);
       _ \<leftarrow> deref_v m vb;
       r1 \<leftarrow> deref_v m pv1;
       r3 \<leftarrow> deref_v m pv3;
       let wb = (if v_id r1 < v_id r3 then pv1 else pv3);
       _ \<leftarrow> deref_v m wb;
       None } }"

text \<open>\<open>splitEdge\<close>. The closing loop asserts, for the three half-edges of each of the four
  faces, \<open>pH->vertex() == pH->dual()->prev()->vertex()\<close>.\<close>

definition check_corner :: "bool \<Rightarrow> mesh \<Rightarrow> hptr \<Rightarrow> hptr option" where
  "check_corner nd m pH = do {
     _ \<leftarrow> assert_eval nd (do {
            v \<leftarrow> he_vertex m pH;
            d \<leftarrow> he_dual m pH;
            p \<leftarrow> he_prev m d;
            w \<leftarrow> he_vertex m p;
            Some (v = w) });
     he_next m pH }"

definition check_face :: "bool \<Rightarrow> fptr \<Rightarrow> mesh \<Rightarrow> mesh option" where
  "check_face nd f m = do {
     pH \<leftarrow> map_option f_halfedge (deref_f m f);
     pH1 \<leftarrow> check_corner nd m pH;
     pH2 \<leftarrow> check_corner nd m pH1;
     _ \<leftarrow> check_corner nd m pH2;
     Some m }"

definition splitEdge :: "bool \<Rightarrow> mesh \<Rightarrow> eptr \<Rightarrow> (vref \<times> mesh) option" where
  "splitEdge nd m pEdge = do {
     let m0 = m\<lparr>m_vertex_id := m_vertex_id m + 1\<rparr>;
     (pV, m1) \<leftarrow> create_vertex m0 (m_vertex_id m0);
     h0 \<leftarrow> e_halfedge nd m1 pEdge 0;
     h1 \<leftarrow> he_next m1 h0;
     h2 \<leftarrow> he_next m1 h1;
     h3 \<leftarrow> e_halfedge nd m1 pEdge 1;
     h4 \<leftarrow> he_next m1 h3;
     h5 \<leftarrow> he_next m1 h4;
     f0 \<leftarrow> he_face m1 h0;
     f1 \<leftarrow> he_face m1 h3;
     eg0 \<leftarrow> he_edge m1 h0; v0 \<leftarrow> he_vertex m1 h0; s0 \<leftarrow> he_dual m1 h0;
     eg1 \<leftarrow> he_edge m1 h1; v1 \<leftarrow> he_vertex m1 h1; s1 \<leftarrow> he_dual m1 h1;
     eg2 \<leftarrow> he_edge m1 h2; v2 \<leftarrow> he_vertex m1 h2; s2 \<leftarrow> he_dual m1 h2;
     eg3 \<leftarrow> he_edge m1 h3; v3 \<leftarrow> he_vertex m1 h3; s3 \<leftarrow> he_dual m1 h3;
     eg4 \<leftarrow> he_edge m1 h4; v4 \<leftarrow> he_vertex m1 h4; s4 \<leftarrow> he_dual m1 h4;
     eg5 \<leftarrow> he_edge m1 h5; v5 \<leftarrow> he_vertex m1 h5; s5 \<leftarrow> he_dual m1 h5;
     (f2, ha, m2) \<leftarrow> new_triangle m1;
     (f3, hb, m3) \<leftarrow> new_triangle m2;
     let h6 = Some (ha ! 0);
     let h7 = Some (ha ! 1);
     let h8 = Some (ha ! 2);
     let h9 = Some (hb ! 0);
     let h10 = Some (hb ! 1);
     let h11 = Some (hb ! 2);
     let (e0, m4) = new_edge_pushed m3;
     let (e1, m5) = new_edge_pushed m4;
     let (e2, m6) = new_edge_pushed m5;
     m7 \<leftarrow> attach_halfedge_to_edge nd m6 h2 h6 (Some e0);
     m8 \<leftarrow> attach_halfedge_to_edge nd m7 h8 h9 (Some e1);
     m9 \<leftarrow> attach_halfedge_to_edge nd m8 h4 h11 (Some e2);
     m10 \<leftarrow> attach_halfedge_to_edge nd m9 h0 h3 eg0;
     m11 \<leftarrow> attach_halfedge_to_edge nd m10 h1 s1 eg1;
     m12 \<leftarrow> attach_halfedge_to_edge nd m11 h5 s5 eg5;
     m13 \<leftarrow> attach_halfedge_to_edge nd m12 h7 s2 eg2;
     m14 \<leftarrow> attach_halfedge_to_edge nd m13 h10 s4 eg4;
     m15 \<leftarrow> set_vertex m14 h0 v0;
     m16 \<leftarrow> set_vertex m15 h1 v1;
     m17 \<leftarrow> set_vertex m16 h2 (Some pV);
     m18 \<leftarrow> set_vertex m17 h3 (Some pV);
     m19 \<leftarrow> set_vertex m18 h4 v4;
     m20 \<leftarrow> set_vertex m19 h5 v5;
     m21 \<leftarrow> set_vertex m20 h6 v1;
     m22 \<leftarrow> set_vertex m21 h7 v2;
     m23 \<leftarrow> set_vertex m22 h8 (Some pV);
     m24 \<leftarrow> set_vertex m23 h9 v2;
     m25 \<leftarrow> set_vertex m24 h10 v4;
     m26 \<leftarrow> set_vertex m25 h11 (Some pV);
     m27 \<leftarrow> set_v_halfedge m26 v0 h0;
     m28 \<leftarrow> set_v_halfedge m27 v1 h1;
     m29 \<leftarrow> set_v_halfedge m28 v2 h7;
     m30 \<leftarrow> set_v_halfedge m29 v4 h4;
     m31 \<leftarrow> set_v_halfedge m30 (Some pV) h3;
     m32 \<leftarrow> for_each [f0, f1, Some f2, Some f3] (check_face nd) m31;
     Some (pV, m32) }"

section \<open>Bulk construction and the example meshes\<close>

text \<open>Bulk construction as the readers do it (\<open>read_off\<close>, \<open>set_from_vector\<close>): the
  vertices are created first, then the faces, each over vertices looked up before.\<close>

fun add_vertices :: "int list \<Rightarrow> mesh \<Rightarrow> mesh option" where
  "add_vertices [] m = Some m"
| "add_vertices (i # is) m = do { (v, m1) \<leftarrow> create_vertex m i; add_vertices is m1 }"

fun add_faces :: "bool \<Rightarrow> (int \<times> vptr list) list \<Rightarrow> mesh \<Rightarrow> mesh option" where
  "add_faces nd [] m = Some m"
| "add_faces nd ((i, vs) # fs) m = do { (f, m1) \<leftarrow> create_face nd m vs i; add_faces nd fs m1 }"

text \<open>A single vertex with id 7.\<close>

definition one_vertex_mesh :: mesh where
  "one_vertex_mesh = the (add_vertices [7] empty_mesh)"

text \<open>Five vertices with ids 1 to 5 at addresses 0 to 4 and the two triangles \<open>(1, 2, 3)\<close>
  and \<open>(2, 1, 4)\<close>, which share the edge between the vertices 1 and 2 (edge address 1);
  vertex 5 is on no face.\<close>

definition quad_mesh :: mesh where
  "quad_mesh = the (do {
     m \<leftarrow> add_vertices [1, 2, 3, 4, 5] empty_mesh;
     add_faces False [(1, [Some 0, Some 1, Some 2]), (2, [Some 1, Some 0, Some 3])] m })"

section \<open>Specification vocabulary\<close>

text \<open>The two endpoints of an edge as \<open>CEdge::vertex1\<close> and \<open>vertex2\<close> derive them: source
  and target of the half-edge in slot 0.\<close>

definition edge_ends :: "mesh \<Rightarrow> eref \<Rightarrow> (vptr \<times> vptr) option" where
  "edge_ends m e = do {
     r \<leftarrow> deref_e m (Some e);
     s \<leftarrow> he_source m (e_halfedge0 r);
     t \<leftarrow> he_target m (e_halfedge0 r);
     Some (s, t) }"

definition edge_joins :: "mesh \<Rightarrow> vptr \<Rightarrow> vptr \<Rightarrow> eref \<Rightarrow> bool" where
  "edge_joins m a b e = (edge_ends m e = Some (a, b) \<or> edge_ends m e = Some (b, a))"

text \<open>The assignment \<open>e->halfedge(0) = h\<close> on an edge whose slots are both empty.\<close>

definition fill_slot0 :: "mesh \<Rightarrow> eref \<Rightarrow> href \<Rightarrow> mesh" where
  "fill_slot0 m e h = m\<lparr>edge_heap := (edge_heap m)(e \<mapsto> \<lparr>e_halfedge0 = Some h, e_halfedge1 = None\<rparr>)\<rparr>"

text \<open>Five vertices with ids 1 to 5 at addresses 0 to 4 and the strip of triangles
  \<open>(1, 2, 3)\<close>, \<open>(3, 4, 5)\<close>, \<open>(3, 2, 4)\<close>, created in this order at face addresses 0, 1, 2.
  The last one lies between the other two; its third edge, between the vertices 2 and 4
  (edge address 6), is on the boundary.\<close>

definition strip_mesh :: mesh where
  "strip_mesh = the (do {
     m \<leftarrow> add_vertices [1, 2, 3, 4, 5] empty_mesh;
     add_faces False [(1, [Some 0, Some 1, Some 2]), (2, [Some 2, Some 3, Some 4]),
                      (3, [Some 2, Some 1, Some 3])] m })"

text \<open>The example mesh after \<open>label_boundary\<close> (which deletes the unused vertex 5), and its
  boundary loop as \<open>CBoundary\<close> traces it with every edge length 1: the half-edges 5, 3,
  2, 0, which leave the vertices at the addresses 0, 3, 1, 2 in this order.\<close>

definition quad_labeled :: mesh where
  "quad_labeled = the (label_boundary False quad_mesh)"

definition quad_loop :: "int CLoop" where
  "quad_loop = hd (the (new_CBoundary (\<lambda>e. 1) quad_labeled))"

section \<open>Heap writes\<close>

text \<open>The three ways in which the operations change a store: assignment to an existing
  object, allocation of a new one, and deletion.\<close>

definition put_v :: "mesh \<Rightarrow> nat \<Rightarrow> CVertex \<Rightarrow> mesh" where
  "put_v m a r = (if deref_v m (Some a) = None then m else m\<lparr>vertex_heap := (vertex_heap m)(a \<mapsto> r)\<rparr>)"

definition alloc_v :: "mesh \<Rightarrow> CVertex \<Rightarrow> mesh" where
  "alloc_v m r = m\<lparr>vertex_heap := (vertex_heap m)(fresh_v m \<mapsto> r), fresh_v := Suc (fresh_v m)\<rparr>"

definition free_v :: "mesh \<Rightarrow> nat \<Rightarrow> mesh" where
  "free_v m a = m\<lparr>vertex_heap := (vertex_heap m)(a := None)\<rparr>"

definition put_e :: "mesh \<Rightarrow> nat \<Rightarrow> CEdge \<Rightarrow> mesh" where
  "put_e m a r = (if deref_e m (Some a) = None then m else m\<lparr>edge_heap := (edge_heap m)(a \<mapsto> r)\<rparr>)"

definition alloc_e :: "mesh \<Rightarrow> CEdge \<Rightarrow> mesh" where
  "alloc_e m r = m\<lparr>edge_heap := (edge_heap m)(fresh_e m \<mapsto> r), fresh_e := Suc (fresh_e m)\<rparr>"

definition free_e :: "mesh \<Rightarrow> nat \<Rightarrow> mesh" where
  "free_e m a = m\<lparr>edge_heap := (edge_heap m)(a := None)\<rparr>"

definition put_f :: "mesh \<Rightarrow> nat \<Rightarrow> CFace \<Rightarrow> mesh" where
  "put_f m a r = (if deref_f m (Some a) = None then m else m\<lparr>face_heap := (face_heap m)(a \<mapsto> r)\<rparr>)"

definition alloc_f :: "mesh \<Rightarrow> CFace \<Rightarrow> mesh" where
  "alloc_f m r = m\<lparr>face_heap := (face_heap m)(fresh_f m \<mapsto> r), fresh_f := Suc (fresh_f m)\<rparr>"

definition free_f :: "mesh \<Rightarrow> nat \<Rightarrow> mesh" where
  "free_f m a = m\<lparr>face_heap := (face_heap m)(a := None)\<rparr>"

definition put_h :: "mesh \<Rightarrow> nat \<Rightarrow> CHalfEdge \<Rightarrow> mesh" where
  "put_h m a r = (if deref_h m (Some a) = None then m else m\<lparr>halfedge_heap := (halfedge_heap m)(a \<mapsto> r)\<rparr>)"

definition alloc_h :: "mesh \<Rightarrow> CHalfEdge \<Rightarrow> mesh" where
  "alloc_h m r = m\<lparr>halfedge_heap := (halfedge_heap m)(fresh_h m \<mapsto> r), fresh_h := Suc (fresh_h m)\<rparr>"

definition free_h :: "mesh \<Rightarrow> nat \<Rightarrow> mesh" where
  "free_h m a = m\<lparr>halfedge_heap := (halfedge_heap m)(a := None)\<rparr>"

text \<open>The closed mesh of four triangles over the vertices with ids 1 to 4 (addresses 0
  to 3): every edge has two half-edges.\<close>

definition tetra_mesh :: mesh where
  "tetra_mesh = the (do {
     m \<leftarrow> add_vertices [1, 2, 3, 4] empty_mesh;
     add_faces False [(1, [Some 0, Some 1, Some 2]), (2, [Some 1, Some 0, Some 3]),
                      (3, [Some 2, Some 1, Some 3]), (4, [Some 0, Some 2, Some 3])] m })"

section \<open>Well-formed half-edge structure\<close>

text \<open>A live half-edge is well formed when its \<open>next\<close> and \<open>prev\<close> are two other live
  half-edges that close a cycle of three with it, its target is a live vertex different
  from the target of its \<open>next\<close>, and its edge is a live edge that holds it in one of
  the two slots.\<close>

definition wf_halfedge :: "mesh \<Rightarrow> href \<Rightarrow> bool" where
  "wf_halfedge m h = (case deref_h m (Some h) of None \<Rightarrow> True | Some r \<Rightarrow>
     (case (h_next r, h_prev r, h_vertex r, h_edge r) of
        (Some n, Some p, Some v, Some e) \<Rightarrow>
          (case (deref_h m (Some n), deref_h m (Some p), deref_e m (Some e)) of
             (Some rn, Some rp, Some re) \<Rightarrow>
               n \<noteq> h \<and> p \<noteq> h \<and> n \<noteq> p \<and>
               h_prev rn = Some h \<and> h_next rn = Some p \<and>
               h_next rp = Some h \<and> h_prev rp = Some n \<and>
               deref_v m (Some v) \<noteq> None \<and> h_vertex rn \<noteq> Some v \<and>
               (e_halfedge0 re = Some h \<or> e_halfedge1 re = Some h)
           | _ \<Rightarrow> False)
      | _ \<Rightarrow> False))"

text \<open>A live edge is well formed when slot 0 holds a half-edge of this edge and slot 1 is
  empty or holds another half-edge of this edge that runs the opposite way.\<close>

definition wf_edge :: "mesh \<Rightarrow> eref \<Rightarrow> bool" where
  "wf_edge m e = (case deref_e m (Some e) of None \<Rightarrow> True | Some re \<Rightarrow>
     (case e_halfedge0 re of None \<Rightarrow> False | Some a \<Rightarrow>
        he_edge m (Some a) = Some (Some e) \<and>
        (case e_halfedge1 re of None \<Rightarrow> True | Some b \<Rightarrow>
           b \<noteq> a \<and> he_edge m (Some b) = Some (Some e) \<and>
           he_target m (Some a) = he_source m (Some b) \<and>
           he_target m (Some b) = he_source m (Some a))))"

text \<open>A mesh is well formed when its half-edges and edges are, and its edge list holds
  allocated edges.\<close>

definition wf_mesh :: "mesh \<Rightarrow> bool" where
  "wf_mesh m = ((\<forall>h \<in> set [0..<fresh_h m]. wf_halfedge m h) \<and>
                (\<forall>e \<in> set [0..<fresh_e m]. wf_edge m e) \<and>
                (\<forall>e \<in> set (m_edges m). e < fresh_e m))"

text \<open>The two invariants in the words of the data model. Invariant 1: for every half-edge
  \<open>h\<close>, \<open>h.next.prev == h\<close>, \<open>h.prev.next == h\<close>, and following \<open>next\<close> from \<open>h\<close> returns to
  \<open>h\<close> after three steps and not earlier.\<close>

definition invariant1 :: "mesh \<Rightarrow> bool" where
  "invariant1 m = (\<forall>h \<in> set [0..<fresh_h m]. deref_h m (Some h) \<noteq> None \<longrightarrow>
     he_next m (Some h) \<bind> he_prev m = Some (Some h) \<and>
     he_prev m (Some h) \<bind> he_next m = Some (Some h) \<and>
     he_next m (Some h) \<noteq> Some (Some h) \<and>
     he_next m (Some h) \<bind> he_next m \<noteq> Some (Some h) \<and>
     he_next m (Some h) \<bind> he_next m \<bind> he_next m = Some (Some h))"

text \<open>Invariant 2: for every edge whose two slots are filled with \<open>h0\<close> and \<open>h1\<close>,
  \<open>h0.dual == h1\<close>, \<open>h1.dual == h0\<close>, \<open>h0.target == h1.source\<close> and
  \<open>h1.target == h0.source\<close>.\<close>

definition invariant2 :: "mesh \<Rightarrow> bool" where
  "invariant2 m = (\<forall>e \<in> set [0..<fresh_e m].
     (case deref_e m (Some e) of None \<Rightarrow> True | Some re \<Rightarrow>
        (case (e_halfedge0 re, e_halfedge1 re) of
           (Some h0, Some h1) \<Rightarrow>
             he_dual m (Some h0) = Some (Some h1) \<and> he_dual m (Some h1) = Some (Some h0) \<and>
             he_target m (Some h0) \<noteq> None \<and> he_target m (Some h0) = he_source m (Some h1) \<and>
             he_target m (Some h1) \<noteq> None \<and> he_target m (Some h1) = he_source m (Some h0)
         | _ \<Rightarrow> True)))"

text \<open>The degree of a vertex: the number of edges of the mesh with that vertex as an
  endpoint.\<close>

definition incident :: "mesh \<Rightarrow> vref \<Rightarrow> eref \<Rightarrow> bool" where
  "incident m v e = (case edge_ends m e of None \<Rightarrow> False | Some (s, t) \<Rightarrow> s = Some v \<or> t = Some v)"

definition degree :: "mesh \<Rightarrow> vref \<Rightarrow> nat" where
  "degree m v = length (filter (incident m v) (m_edges m))"

definition connected :: "mesh \<Rightarrow> vref \<Rightarrow> vref \<Rightarrow> bool" where
  "connected m v w = (\<exists>e \<in> set (m_edges m). edge_joins m (Some v) (Some w) e)"

section \<open>Properties of the operations\<close>

lemmas heap_defs = deref_v_def deref_e_def deref_f_def deref_h_def upd_v_def upd_e_def upd_f_def
  upd_h_def assert_that_def assert_eval_def he_vertex_def he_target_def he_prev_def he_next_def he_edge_def
  he_face_def he_source_def e_halfedge_def set_e_halfedge_def e_other_def he_dual_def
  e_boundary_def e_vertex1_def e_vertex2_def new_CVertex_def new_CEdge_def new_CFace_def
  new_CHalfEdge_def map_insert_def

subsection \<open>Reading after writing\<close>

lemmas put_defs = put_v_def alloc_v_def free_v_def put_e_def alloc_e_def free_e_def put_f_def alloc_f_def free_f_def put_h_def alloc_h_def free_h_def

lemmas deref_defs = deref_v_def deref_e_def deref_f_def deref_h_def

lemma put_fields [simp]:
  "fresh_v (put_v m a rv) = fresh_v m"
  "fresh_v (free_v m a) = fresh_v m"
  "fresh_v (alloc_v m rv) = Suc (fresh_v m)"
  "fresh_e (put_v m a rv) = fresh_e m"
  "fresh_e (free_v m a) = fresh_e m"
  "fresh_e (alloc_v m rv) = fresh_e m"
  "fresh_f (put_v m a rv) = fresh_f m"
  "fresh_f (free_v m a) = fresh_f m"
  "fresh_f (alloc_v m rv) = fresh_f m"
  "fresh_h (put_v m a rv) = fresh_h m"
  "fresh_h (free_v m a) = fresh_h m"
  "fresh_h (alloc_v m rv) = fresh_h m"
  "m_edges (put_v m a rv) = m_edges m"
  "m_edges (free_v m a) = m_edges m"
  "m_edges (alloc_v m rv) = m_edges m"
  "m_halfedges (put_v m a rv) = m_halfedges m"
  "m_halfedges (free_v m a) = m_halfedges m"
  "m_halfedges (alloc_v m rv) = m_halfedges m"
  "m_verts (put_v m a rv) = m_verts m"
  "m_verts (free_v m a) = m_verts m"
  "m_verts (alloc_v m rv) = m_verts m"
  "m_faces (put_v m a rv) = m_faces m"
  "m_faces (free_v m a) = m_faces m"
  "m_faces (alloc_v m rv) = m_faces m"
  "m_map_vert (put_v m a rv) = m_map_vert m"
  "m_map_vert (free_v m a) = m_map_vert m"
  "m_map_vert (alloc_v m rv) = m_map_vert m"
  "m_map_face (put_v m a rv) = m_map_face m"
  "m_map_face (free_v m a) = m_map_face m"
  "m_map_face (alloc_v m rv) = m_map_face m"
  "m_vertex_id (put_v m a rv) = m_vertex_id m"
  "m_vertex_id (free_v m a) = m_vertex_id m"
  "m_vertex_id (alloc_v m rv) = m_vertex_id m"
  "m_face_id (put_v m a rv) = m_face_id m"
  "m_face_id (free_v m a) = m_face_id m"
  "m_face_id (alloc_v m rv) = m_face_id m"
  "console (put_v m a rv) = console m"
  "console (free_v m a) = console m"
  "console (alloc_v m rv) = console m"
  "fresh_v (put_e m a re) = fresh_v m"
  "fresh_v (free_e m a) = fresh_v m"
  "fresh_v (alloc_e m re) = fresh_v m"
  "fresh_e (put_e m a re) = fresh_e m"
  "fresh_e (free_e m a) = fresh_e m"
  "fresh_e (alloc_e m re) = Suc (fresh_e m)"
  "fresh_f (put_e m a re) = fresh_f m"
  "fresh_f (free_e m a) = fresh_f m"
  "fresh_f (alloc_e m re) = fresh_f m"
  "fresh_h (put_e m a re) = fresh_h m"
  "fresh_h (free_e m a) = fresh_h m"
  "fresh_h (alloc_e m re) = fresh_h m"
  "m_edges (put_e m a re) = m_edges m"
  "m_edges (free_e m a) = m_edges m"
  "m_edges (alloc_e m re) = m_edges m"
  "m_halfedges (put_e m a re) = m_halfedges m"
  "m_halfedges (free_e m a) = m_halfedges m"
  "m_halfedges (alloc_e m re) = m_halfedges m"
  "m_verts (put_e m a re) = m_verts m"
  "m_verts (free_e m a) = m_verts m"
  "m_verts (alloc_e m re) = m_verts m"
  "m_faces (put_e m a re) = m_faces m"
  "m_faces (free_e m a) = m_faces m"
  "m_faces (alloc_e m re) = m_faces m"
  "m_map_vert (put_e m a re) = m_map_vert m"
  "m_map_vert (free_e m a) = m_map_vert m"
  "m_map_vert (alloc_e m re) = m_map_vert m"
  "m_map_face (put_e m a re) = m_map_face m"
  "m_map_face (free_e m a) = m_map_face m"
  "m_map_face (alloc_e m re) = m_map_face m"
  "m_vertex_id (put_e m a re) = m_vertex_id m"
  "m_vertex_id (free_e m a) = m_vertex_id m"
  "m_vertex_id (alloc_e m re) = m_vertex_id m"
  "m_face_id (put_e m a re) = m_face_id m"
  "m_face_id (free_e m a) = m_face_id m"
  "m_face_id (alloc_e m re) = m_face_id m"
  "console (put_e m a re) = console m"
  "console (free_e m a) = console m"
  "console (alloc_e m re) = console m"
  "fresh_v (put_f m a rf) = fresh_v m"
  "fresh_v (free_f m a) = fresh_v m"
  "fresh_v (alloc_f m rf) = fresh_v m"
  "fresh_e (put_f m a rf) = fresh_e m"
  "fresh_e (free_f m a) = fresh_e m"
  "fresh_e (alloc_f m rf) = fresh_e m"
  "fresh_f (put_f m a rf) = fresh_f m"
  "fresh_f (free_f m a) = fresh_f m"
  "fresh_f (alloc_f m rf) = Suc (fresh_f m)"
  "fresh_h (put_f m a rf) = fresh_h m"
  "fresh_h (free_f m a) = fresh_h m"
  "fresh_h (alloc_f m rf) = fresh_h m"
  "m_edges (put_f m a rf) = m_edges m"
  "m_edges (free_f m a) = m_edges m"
  "m_edges (alloc_f m rf) = m_edges m"
  "m_halfedges (put_f m a rf) = m_halfedges m"
  "m_halfedges (free_f m a) = m_halfedges m"
  "m_halfedges (alloc_f m rf) = m_halfedges m"
  "m_verts (put_f m a rf) = m_verts m"
  "m_verts (free_f m a) = m_verts m"
  "m_verts (alloc_f m rf) = m_verts m"
  "m_faces (put_f m a rf) = m_faces m"
  "m_faces (free_f m a) = m_faces m"
  "m_faces (alloc_f m rf) = m_faces m"
  "m_map_vert (put_f m a rf) = m_map_vert m"
  "m_map_vert (free_f m a) = m_map_vert m"
  "m_map_vert (alloc_f m rf) = m_map_vert m"
  "m_map_face (put_f m a rf) = m_map_face m"
  "m_map_face (free_f m a) = m_map_face m"
  "m_map_face (alloc_f m rf) = m_map_face m"
  "m_vertex_id (put_f m a rf) = m_vertex_id m"
  "m_vertex_id (free_f m a) = m_vertex_id m"
  "m_vertex_id (alloc_f m rf) = m_vertex_id m"
  "m_face_id (put_f m a rf) = m_face_id m"
  "m_face_id (free_f m a) = m_face_id m"
  "m_face_id (alloc_f m rf) = m_face_id m"
  "console (put_f m a rf) = console m"
  "console (free_f m a) = console m"
  "console (alloc_f m rf) = console m"
  "fresh_v (put_h m a rh) = fresh_v m"
  "fresh_v (free_h m a) = fresh_v m"
  "fresh_v (alloc_h m rh) = fresh_v m"
  "fresh_e (put_h m a rh) = fresh_e m"
  "fresh_e (free_h m a) = fresh_e m"
  "fresh_e (alloc_h m rh) = fresh_e m"
  "fresh_f (put_h m a rh) = fresh_f m"
  "fresh_f (free_h m a) = fresh_f m"
  "fresh_f (alloc_h m rh) = fresh_f m"
  "fresh_h (put_h m a rh) = fresh_h m"
  "fresh_h (free_h m a) = fresh_h m"
  "fresh_h (alloc_h m rh) = Suc (fresh_h m)"
  "m_edges (put_h m a rh) = m_edges m"
  "m_edges (free_h m a) = m_edges m"
  "m_edges (alloc_h m rh) = m_edges m"
  "m_halfedges (put_h m a rh) = m_halfedges m"
  "m_halfedges (free_h m a) = m_halfedges m"
  "m_halfedges (alloc_h m rh) = m_halfedges m"
  "m_verts (put_h m a rh) = m_verts m"
  "m_verts (free_h m a) = m_verts m"
  "m_verts (alloc_h m rh) = m_verts m"
  "m_faces (put_h m a rh) = m_faces m"
  "m_faces (free_h m a) = m_faces m"
  "m_faces (alloc_h m rh) = m_faces m"
  "m_map_vert (put_h m a rh) = m_map_vert m"
  "m_map_vert (free_h m a) = m_map_vert m"
  "m_map_vert (alloc_h m rh) = m_map_vert m"
  "m_map_face (put_h m a rh) = m_map_face m"
  "m_map_face (free_h m a) = m_map_face m"
  "m_map_face (alloc_h m rh) = m_map_face m"
  "m_vertex_id (put_h m a rh) = m_vertex_id m"
  "m_vertex_id (free_h m a) = m_vertex_id m"
  "m_vertex_id (alloc_h m rh) = m_vertex_id m"
  "m_face_id (put_h m a rh) = m_face_id m"
  "m_face_id (free_h m a) = m_face_id m"
  "m_face_id (alloc_h m rh) = m_face_id m"
  "console (put_h m a rh) = console m"
  "console (free_h m a) = console m"
  "console (alloc_h m rh) = console m"
  by (simp_all add: put_defs)

lemma deref_put [simp]:
  "deref_v (put_v m a rv) (Some x) = (if x = a then (case deref_v m (Some a) of None \<Rightarrow> None | Some _ \<Rightarrow> Some rv) else deref_v m (Some x))"
  "deref_v (alloc_v m rv) (Some x) = (if x = fresh_v m then Some rv else deref_v m (Some x))"
  "deref_v (free_v m a) (Some x) = (if x = a then None else deref_v m (Some x))"
  "deref_v m None = None"
  "deref_e (put_e m a re) (Some x) = (if x = a then (case deref_e m (Some a) of None \<Rightarrow> None | Some _ \<Rightarrow> Some re) else deref_e m (Some x))"
  "deref_e (alloc_e m re) (Some x) = (if x = fresh_e m then Some re else deref_e m (Some x))"
  "deref_e (free_e m a) (Some x) = (if x = a then None else deref_e m (Some x))"
  "deref_e m None = None"
  "deref_f (put_f m a rf) (Some x) = (if x = a then (case deref_f m (Some a) of None \<Rightarrow> None | Some _ \<Rightarrow> Some rf) else deref_f m (Some x))"
  "deref_f (alloc_f m rf) (Some x) = (if x = fresh_f m then Some rf else deref_f m (Some x))"
  "deref_f (free_f m a) (Some x) = (if x = a then None else deref_f m (Some x))"
  "deref_f m None = None"
  "deref_h (put_h m a rh) (Some x) = (if x = a then (case deref_h m (Some a) of None \<Rightarrow> None | Some _ \<Rightarrow> Some rh) else deref_h m (Some x))"
  "deref_h (alloc_h m rh) (Some x) = (if x = fresh_h m then Some rh else deref_h m (Some x))"
  "deref_h (free_h m a) (Some x) = (if x = a then None else deref_h m (Some x))"
  "deref_h m None = None"
  by (auto simp: put_defs deref_defs split: option.splits)

lemma deref_put_other [simp]:
  "deref_v (put_e m a re) p = deref_v m p"
  "deref_v (alloc_e m re) p = deref_v m p"
  "deref_v (free_e m a) p = deref_v m p"
  "deref_v (put_f m a rf) p = deref_v m p"
  "deref_v (alloc_f m rf) p = deref_v m p"
  "deref_v (free_f m a) p = deref_v m p"
  "deref_v (put_h m a rh) p = deref_v m p"
  "deref_v (alloc_h m rh) p = deref_v m p"
  "deref_v (free_h m a) p = deref_v m p"
  "deref_e (put_v m a rv) p = deref_e m p"
  "deref_e (alloc_v m rv) p = deref_e m p"
  "deref_e (free_v m a) p = deref_e m p"
  "deref_e (put_f m a rf) p = deref_e m p"
  "deref_e (alloc_f m rf) p = deref_e m p"
  "deref_e (free_f m a) p = deref_e m p"
  "deref_e (put_h m a rh) p = deref_e m p"
  "deref_e (alloc_h m rh) p = deref_e m p"
  "deref_e (free_h m a) p = deref_e m p"
  "deref_f (put_v m a rv) p = deref_f m p"
  "deref_f (alloc_v m rv) p = deref_f m p"
  "deref_f (free_v m a) p = deref_f m p"
  "deref_f (put_e m a re) p = deref_f m p"
  "deref_f (alloc_e m re) p = deref_f m p"
  "deref_f (free_e m a) p = deref_f m p"
  "deref_f (put_h m a rh) p = deref_f m p"
  "deref_f (alloc_h m rh) p = deref_f m p"
  "deref_f (free_h m a) p = deref_f m p"
  "deref_h (put_v m a rv) p = deref_h m p"
  "deref_h (alloc_v m rv) p = deref_h m p"
  "deref_h (free_v m a) p = deref_h m p"
  "deref_h (put_e m a re) p = deref_h m p"
  "deref_h (alloc_e m re) p = deref_h m p"
  "deref_h (free_e m a) p = deref_h m p"
  "deref_h (put_f m a rf) p = deref_h m p"
  "deref_h (alloc_f m rf) p = deref_h m p"
  "deref_h (free_f m a) p = deref_h m p"
  by (simp_all add: put_defs deref_defs split: option.splits)

lemma deref_field_update [simp]:
  "deref_v (m\<lparr>m_edges := xm_edges\<rparr>) p = deref_v m p"
  "deref_v (m\<lparr>m_halfedges := xm_halfedges\<rparr>) p = deref_v m p"
  "deref_v (m\<lparr>m_verts := xm_verts\<rparr>) p = deref_v m p"
  "deref_v (m\<lparr>m_faces := xm_faces\<rparr>) p = deref_v m p"
  "deref_v (m\<lparr>m_map_vert := xm_map_vert\<rparr>) p = deref_v m p"
  "deref_v (m\<lparr>m_map_face := xm_map_face\<rparr>) p = deref_v m p"
  "deref_v (m\<lparr>m_vertex_id := xm_vertex_id\<rparr>) p = deref_v m p"
  "deref_v (m\<lparr>m_face_id := xm_face_id\<rparr>) p = deref_v m p"
  "deref_v (m\<lparr>console := xconsole\<rparr>) p = deref_v m p"
  "deref_e (m\<lparr>m_edges := xm_edges\<rparr>) p = deref_e m p"
  "deref_e (m\<lparr>m_halfedges := xm_halfedges\<rparr>) p = deref_e m p"
  "deref_e (m\<lparr>m_verts := xm_verts\<rparr>) p = deref_e m p"
  "deref_e (m\<lparr>m_faces := xm_faces\<rparr>) p = deref_e m p"
  "deref_e (m\<lparr>m_map_vert := xm_map_vert\<rparr>) p = deref_e m p"
  "deref_e (m\<lparr>m_map_face := xm_map_face\<rparr>) p = deref_e m p"
  "deref_e (m\<lparr>m_vertex_id := xm_vertex_id\<rparr>) p = deref_e m p"
  "deref_e (m\<lparr>m_face_id := xm_face_id\<rparr>) p = deref_e m p"
  "deref_e (m\<lparr>console := xconsole\<rparr>) p = deref_e m p"
  "deref_f (m\<lparr>m_edges := xm_edges\<rparr>) p = deref_f m p"
  "deref_f (m\<lparr>m_halfedges := xm_halfedges\<rparr>) p = deref_f m p"
  "deref_f (m\<lparr>m_verts := xm_verts\<rparr>) p = deref_f m p"
  "deref_f (m\<lparr>m_faces := xm_faces\<rparr>) p = deref_f m p"
  "deref_f (m\<lparr>m_map_vert := xm_map_vert\<rparr>) p = deref_f m p"
  "deref_f (m\<lparr>m_map_face := xm_map_face\<rparr>) p = deref_f m p"
  "deref_f (m\<lparr>m_vertex_id := xm_vertex_id\<rparr>) p = deref_f m p"
  "deref_f (m\<lparr>m_face_id := xm_face_id\<rparr>) p = deref_f m p"
  "deref_f (m\<lparr>console := xconsole\<rparr>) p = deref_f m p"
  "deref_h (m\<lparr>m_edges := xm_edges\<rparr>) p = deref_h m p"
  "deref_h (m\<lparr>m_halfedges := xm_halfedges\<rparr>) p = deref_h m p"
  "deref_h (m\<lparr>m_verts := xm_verts\<rparr>) p = deref_h m p"
  "deref_h (m\<lparr>m_faces := xm_faces\<rparr>) p = deref_h m p"
  "deref_h (m\<lparr>m_map_vert := xm_map_vert\<rparr>) p = deref_h m p"
  "deref_h (m\<lparr>m_map_face := xm_map_face\<rparr>) p = deref_h m p"
  "deref_h (m\<lparr>m_vertex_id := xm_vertex_id\<rparr>) p = deref_h m p"
  "deref_h (m\<lparr>m_face_id := xm_face_id\<rparr>) p = deref_h m p"
  "deref_h (m\<lparr>console := xconsole\<rparr>) p = deref_h m p"
  by (simp_all add: deref_defs split: option.splits)

lemma upd_put:
  "upd_v m pv gv = (case deref_v m pv of None \<Rightarrow> None | Some rv \<Rightarrow> Some (put_v m (the pv) (gv rv)))"
  "upd_e m pe ge = (case deref_e m pe of None \<Rightarrow> None | Some re \<Rightarrow> Some (put_e m (the pe) (ge re)))"
  "upd_f m pf gf = (case deref_f m pf of None \<Rightarrow> None | Some rf \<Rightarrow> Some (put_f m (the pf) (gf rf)))"
  "upd_h m ph gh = (case deref_h m ph of None \<Rightarrow> None | Some rh \<Rightarrow> Some (put_h m (the ph) (gh rh)))"
  by (auto simp: upd_v_def upd_e_def upd_f_def upd_h_def put_defs deref_defs split: option.splits if_splits)

lemma new_alloc:
  "new_CVertex m = (fresh_v m, alloc_v m \<lparr>v_id = 0, v_halfedge = None, v_boundary = False, v_halfedges = [], v_ledges = []\<rparr>)"
  "new_CEdge m = (fresh_e m, alloc_e m \<lparr>e_halfedge0 = None, e_halfedge1 = None\<rparr>)"
  "new_CFace m = (fresh_f m, alloc_f m \<lparr>f_id = 0, f_halfedge = None\<rparr>)"
  "new_CHalfEdge m = (fresh_h m, alloc_h m \<lparr>h_edge = None, h_face = None, h_vertex = None, h_prev = None, h_next = None\<rparr>)"
  by (simp_all add: new_CVertex_def new_CEdge_def new_CFace_def new_CHalfEdge_def put_defs)

lemma delete_free:
  "delete_v m p = (case p of None \<Rightarrow> Some m | Some a \<Rightarrow> (case deref_v m p of None \<Rightarrow> None | Some _ \<Rightarrow> Some (free_v m a)))"
  "delete_e m p = (case p of None \<Rightarrow> Some m | Some a \<Rightarrow> (case deref_e m p of None \<Rightarrow> None | Some _ \<Rightarrow> Some (free_e m a)))"
  "delete_f m p = (case p of None \<Rightarrow> Some m | Some a \<Rightarrow> (case deref_f m p of None \<Rightarrow> None | Some _ \<Rightarrow> Some (free_f m a)))"
  "delete_h m p = (case p of None \<Rightarrow> Some m | Some a \<Rightarrow> (case deref_h m p of None \<Rightarrow> None | Some _ \<Rightarrow> Some (free_h m a)))"
  by (simp_all add: delete_v_def delete_e_def delete_f_def delete_h_def put_defs split: option.splits)

lemma fresh_neq:
  "x < n \<Longrightarrow> (x = n) = False" "x < n \<Longrightarrow> (n = x) = False"
  "x < n \<Longrightarrow> (x = Suc n) = False" "x < n \<Longrightarrow> (Suc n = x) = False"
  "x < n \<Longrightarrow> (x = Suc (Suc n)) = False" "x < n \<Longrightarrow> (Suc (Suc n) = x) = False"
  "x < n \<Longrightarrow> (x = Suc (Suc (Suc n))) = False" "x < n \<Longrightarrow> (Suc (Suc (Suc n)) = x) = False"
  "x < n \<Longrightarrow> (x = Suc (Suc (Suc (Suc n)))) = False" "x < n \<Longrightarrow> (Suc (Suc (Suc (Suc n))) = x) = False"
  "x < n \<Longrightarrow> (x = Suc (Suc (Suc (Suc (Suc n))))) = False" "x < n \<Longrightarrow> (Suc (Suc (Suc (Suc (Suc n)))) = x) = False"
  for x n :: nat
  by simp_all

lemmas he_defs = he_vertex_def he_target_def he_prev_def he_next_def he_edge_def he_face_def
  he_source_def e_halfedge_def set_e_halfedge_def e_other_def he_dual_def assert_that_def
  assert_eval_def


subsection \<open>\<open>create_vertex\<close> with an id that is already registered\<close>

text \<open>Claim C10. When \<open>id\<close> is already bound in \<open>m_map_vert\<close> to a vertex created earlier,
  \<open>create_vertex(id)\<close> returns; it appends a new vertex object carrying that id to the vertex
  list, so \<open>num_vertices\<close> grows by one; the map is unchanged, and \<open>vertex(id)\<close> still yields
  the first vertex, which is not the new one.\<close>

theorem create_vertex_reused_id:
  assumes "m_map_vert m ident = Some (Some v0)" and "deref_v m (Some v0) \<noteq> None"
  shows "\<exists>v m'. create_vertex m ident = Some (v, m')
           \<and> m_verts m' = m_verts m @ [v]
           \<and> num_vertices m' = num_vertices m + 1
           \<and> m_map_vert m' = m_map_vert m
           \<and> vertex m' ident = (Some v0, m')
           \<and> v \<noteq> v0
           \<and> map_option v_id (deref_v m' (Some v)) = Some ident"
  using assms
  by (auto simp: create_vertex_def heap_defs num_vertices_def vertex_def split: if_splits)

theorem create_vertex_reused_id_witness:
  "\<exists>v m'. create_vertex one_vertex_mesh 7 = Some (v, m')
           \<and> m_verts m' = m_verts one_vertex_mesh @ [v]
           \<and> num_vertices m' = num_vertices one_vertex_mesh + 1
           \<and> m_map_vert m' = m_map_vert one_vertex_mesh
           \<and> vertex m' 7 = (Some 0, m')
           \<and> v \<noteq> 0
           \<and> map_option v_id (deref_v m' (Some v)) = Some 7"
proof -
  have a: "m_map_vert one_vertex_mesh 7 = Some (Some 0)"
    by code_simp
  have b: "deref_v one_vertex_mesh (Some 0) \<noteq> None"
    by code_simp
  show ?thesis
    using create_vertex_reused_id [OF a b] .
qed

subsection \<open>\<open>swapEdge\<close> on a boundary edge\<close>

text \<open>Claim C9. On an edge whose second half-edge slot is empty \<open>swapEdge\<close> returns
  normally and the whole state after the call is the state before it.\<close>

theorem swapEdge_boundary_noop:
  assumes "deref_e m (Some e) = Some r" and "e_halfedge1 r = None"
  shows "swapEdge nd m (Some e) = Some m"
  using assms by (simp add: swapEdge_def e_halfedge_def assert_that_def)

theorem swapEdge_boundary_noop_witness:
  "swapEdge False quad_mesh (Some 0) = Some quad_mesh"
proof -
  have a: "deref_e quad_mesh (Some 0) = Some \<lparr>e_halfedge0 = Some 0, e_halfedge1 = None\<rparr>"
    by code_simp
  show ?thesis
    using swapEdge_boundary_noop [OF a] by simp
qed

subsection \<open>\<open>create_edge\<close>\<close>

lemma search_ledges_find:
  "\<forall>e\<in>set es. edge_ends m e \<noteq> None \<Longrightarrow>
   search_ledges nd m a b es = Some (find (edge_joins m a b) es)"
proof (induction es)
  case Nil
  then show ?case by simp
next
  case (Cons e es)
  from Cons.prems obtain s t where st: "edge_ends m e = Some (s, t)" by auto
  then obtain r where r: "deref_e m (Some e) = Some r" "he_source m (e_halfedge0 r) = Some s"
      "he_target m (e_halfedge0 r) = Some t"
    by (auto simp: edge_ends_def split: Option.bind_splits)
  have "search_ledges nd m a b es = Some (find (edge_joins m a b) es)"
    using Cons by simp
  moreover have "edge_joins m a b e = ((s = a \<and> t = b) \<or> (s = b \<and> t = a))"
    using st by (auto simp: edge_joins_def)
  ultimately show ?case using r
    by (auto simp: e_halfedge_def assert_that_def)
qed

lemma create_edge_spec:
  assumes v1: "deref_v m (Some v1) = Some r1" and v2: "deref_v m (Some v2) = Some r2"
    and pV: "pV = (if v_id r1 < v_id r2 then v1 else v2)"
    and rV: "deref_v m (Some pV) = Some rV"
    and ok: "\<forall>e\<in>set (v_ledges rV). edge_ends m e \<noteq> None"
  shows "create_edge nd m (Some v1) (Some v2) =
     (case find (edge_joins m (Some v1) (Some v2)) (v_ledges rV) of
        Some e \<Rightarrow> Some (e, m)
      | None \<Rightarrow> Some (fresh_e m,
          m\<lparr>edge_heap := (edge_heap m)(fresh_e m \<mapsto> \<lparr>e_halfedge0 = None, e_halfedge1 = None\<rparr>),
            fresh_e := Suc (fresh_e m),
            m_edges := m_edges m @ [fresh_e m],
            vertex_heap := (vertex_heap m)(pV \<mapsto> rV\<lparr>v_ledges := v_ledges rV @ [fresh_e m]\<rparr>)\<rparr>))"
proof -
  have s: "search_ledges nd m (Some v1) (Some v2) (v_ledges rV)
           = Some (find (edge_joins m (Some v1) (Some v2)) (v_ledges rV))"
    using ok by (rule search_ledges_find)
  have "upd_v (m\<lparr>edge_heap := (edge_heap m)(fresh_e m \<mapsto> \<lparr>e_halfedge0 = None, e_halfedge1 = None\<rparr>),
                fresh_e := Suc (fresh_e m), m_edges := m_edges m @ [fresh_e m]\<rparr>)
          (Some pV) (\<lambda>r. r\<lparr>v_ledges := v_ledges r @ [fresh_e m]\<rparr>) =
        Some (m\<lparr>edge_heap := (edge_heap m)(fresh_e m \<mapsto> \<lparr>e_halfedge0 = None, e_halfedge1 = None\<rparr>),
            fresh_e := Suc (fresh_e m),
            m_edges := m_edges m @ [fresh_e m],
            vertex_heap := (vertex_heap m)(pV \<mapsto> rV\<lparr>v_ledges := v_ledges rV @ [fresh_e m]\<rparr>)\<rparr>)"
    using rV by (auto simp: upd_v_def deref_v_def split: if_splits)
  then show ?thesis
    using v1 v2 rV s unfolding pV
    by (auto simp: create_edge_def new_CEdge_def split: option.splits)
qed

lemma edge_ends_cong:
  "deref_e m' (Some e) = deref_e m (Some e) \<Longrightarrow> (\<And>p. deref_h m' p = deref_h m p) \<Longrightarrow>
   edge_ends m' e = edge_ends m e"
  by (simp add: edge_ends_def he_source_def he_target_def he_prev_def he_vertex_def)

lemma find_cong_set: "(\<And>x. x \<in> set xs \<Longrightarrow> P x = Q x) \<Longrightarrow> find P xs = find Q xs"
  by (induction xs) auto

lemma find_append_None: "find P xs = None \<Longrightarrow> P y \<Longrightarrow> find P (xs @ [y]) = Some y"
  by (induction xs) (auto split: if_splits)

text \<open>Claim C3, amended. Let \<open>v1\<close> and \<open>v2\<close> be live vertices, \<open>pV\<close> the one with the smaller
  id (\<open>v2\<close> when the ids are equal), and let every edge of \<open>pV\<close>'s candidate list have a
  slot-0 half-edge whose predecessor exists. Then \<open>create_edge(v1, v2)\<close> returns. If the
  candidate list of \<open>pV\<close> holds an edge whose slot-0 half-edge runs from \<open>v1\<close> to \<open>v2\<close> or back,
  the first such edge is returned, the mesh is unchanged and a second call returns the
  same edge. Otherwise a new edge with both slots empty is allocated and appended to the
  mesh's edge list and to the candidate list of \<open>pV\<close> only; once its slot 0 holds a
  half-edge between the two vertices, a further call returns that same edge and changes
  nothing.\<close>

theorem create_edge_amended:
  assumes v1: "deref_v m (Some v1) = Some r1" and v2: "deref_v m (Some v2) = Some r2"
    and pV: "pV = (if v_id r1 < v_id r2 then v1 else v2)"
    and rV: "deref_v m (Some pV) = Some rV"
    and ok: "\<forall>e\<in>set (v_ledges rV). edge_ends m e \<noteq> None"
  shows "\<exists>e m'. create_edge nd m (Some v1) (Some v2) = Some (e, m') \<and>
     (case find (edge_joins m (Some v1) (Some v2)) (v_ledges rV) of
        Some e0 \<Rightarrow> e = e0 \<and> m' = m \<and> create_edge nd m' (Some v1) (Some v2) = Some (e, m')
      | None \<Rightarrow> e = fresh_e m \<and>
          m' = m\<lparr>edge_heap := (edge_heap m)(e \<mapsto> \<lparr>e_halfedge0 = None, e_halfedge1 = None\<rparr>),
                 fresh_e := Suc (fresh_e m),
                 m_edges := m_edges m @ [e],
                 vertex_heap := (vertex_heap m)(pV \<mapsto> rV\<lparr>v_ledges := v_ledges rV @ [e]\<rparr>)\<rparr> \<and>
          (\<forall>h. edge_joins (fill_slot0 m' e h) (Some v1) (Some v2) e \<longrightarrow>
               create_edge nd (fill_slot0 m' e h) (Some v1) (Some v2) = Some (e, fill_slot0 m' e h)))"
proof (cases "find (edge_joins m (Some v1) (Some v2)) (v_ledges rV)")
  case (Some e0)
  then show ?thesis
    using create_edge_spec [OF v1 v2 pV rV ok, of nd] by simp
next
  case None
  define e where "e = fresh_e m"
  define m' where "m' = m\<lparr>edge_heap := (edge_heap m)(e \<mapsto> \<lparr>e_halfedge0 = None, e_halfedge1 = None\<rparr>),
                 fresh_e := Suc (fresh_e m),
                 m_edges := m_edges m @ [e],
                 vertex_heap := (vertex_heap m)(pV \<mapsto> rV\<lparr>v_ledges := v_ledges rV @ [e]\<rparr>)\<rparr>"
  have first: "create_edge nd m (Some v1) (Some v2) = Some (e, m')"
    using create_edge_spec [OF v1 v2 pV rV ok, of nd] None by (simp add: e_def m'_def)
  have notin: "e \<notin> set (v_ledges rV)"
    using ok by (auto simp: e_def edge_ends_def deref_e_def)
  have again: "create_edge nd (fill_slot0 m' e h) (Some v1) (Some v2) = Some (e, fill_slot0 m' e h)"
    if j: "edge_joins (fill_slot0 m' e h) (Some v1) (Some v2) e" for h
  proof -
    let ?m2 = "fill_slot0 m' e h"
    let ?rV = "rV\<lparr>v_ledges := v_ledges rV @ [e]\<rparr>"
    have same: "edge_ends ?m2 x = edge_ends m x" if "x \<in> set (v_ledges rV)" for x
      using that notin ok
      by (intro edge_ends_cong)
         (auto simp: fill_slot0_def m'_def e_def deref_e_def deref_h_def edge_ends_def
               split: option.splits if_splits)
    have ee: "edge_ends ?m2 e \<noteq> None"
      using j by (auto simp: edge_joins_def)
    have old: "find (edge_joins ?m2 (Some v1) (Some v2)) (v_ledges rV) = None"
      using None find_cong_set [of "v_ledges rV" "edge_joins ?m2 (Some v1) (Some v2)"
          "edge_joins m (Some v1) (Some v2)"] same
      by (simp add: edge_joins_def)
    have fnd: "find (edge_joins ?m2 (Some v1) (Some v2)) (v_ledges ?rV) = Some e"
      using find_append_None [OF old j] by simp
    have w1: "deref_v ?m2 (Some v1) = Some (if v1 = pV then ?rV else r1)"
      using v1 rV by (auto simp: fill_slot0_def m'_def deref_v_def split: if_splits)
    have w2: "deref_v ?m2 (Some v2) = Some (if v2 = pV then ?rV else r2)"
      using v2 rV by (auto simp: fill_slot0_def m'_def deref_v_def split: if_splits)
    have wp: "pV = (if v_id (if v1 = pV then ?rV else r1) < v_id (if v2 = pV then ?rV else r2)
                    then v1 else v2)"
      using pV v1 v2 rV by (auto split: if_splits)
    have wr: "deref_v ?m2 (Some pV) = Some ?rV"
      using rV by (auto simp: fill_slot0_def m'_def deref_v_def split: if_splits)
    have wok: "\<forall>x\<in>set (v_ledges ?rV). edge_ends ?m2 x \<noteq> None"
      using ok same ee by auto
    show ?thesis
      using create_edge_spec [OF w1 w2 wp wr wok, of nd] fnd by simp
  qed
  show ?thesis
    unfolding None option.case
    by (rule exI [of _ e], rule exI [of _ m']) (use first again e_def m'_def in blast)
qed

text \<open>The theorem at the vertices with ids 1 and 5 of the example mesh: no edge joins them,
  and the candidate list of vertex 1 holds three edges.\<close>

theorem create_edge_amended_witness:
  "\<exists>e m'. create_edge False quad_mesh (Some 0) (Some 4) = Some (e, m') \<and> e = fresh_e quad_mesh \<and>
     m_edges m' = m_edges quad_mesh @ [e] \<and>
     map_option v_ledges (deref_v m' (Some 0)) = Some [0, 1, 4, e] \<and>
     map_option v_ledges (deref_v m' (Some 4)) = Some [] \<and>
     (\<forall>h. edge_joins (fill_slot0 m' e h) (Some 0) (Some 4) e \<longrightarrow>
          create_edge False (fill_slot0 m' e h) (Some 0) (Some 4) = Some (e, fill_slot0 m' e h))"
proof -
  let ?r1 = "\<lparr>v_id = 1, v_halfedge = Some 4, v_boundary = False, v_halfedges = [0, 4],
              v_ledges = [0, 1, 4]\<rparr>"
  let ?r2 = "\<lparr>v_id = 5, v_halfedge = None, v_boundary = False, v_halfedges = [],
              v_ledges = []\<rparr>"
  have v1: "deref_v quad_mesh (Some 0) = Some ?r1" by code_simp
  have v2: "deref_v quad_mesh (Some 4) = Some ?r2" by code_simp
  have pV: "0 = (if v_id ?r1 < v_id ?r2 then 0 else (4::nat))" by simp
  have ok: "\<forall>e\<in>set (v_ledges ?r1). edge_ends quad_mesh e \<noteq> None" by code_simp
  have none: "find (edge_joins quad_mesh (Some 0) (Some 4)) (v_ledges ?r1) = None" by code_simp
  show ?thesis
    using create_edge_amended [OF v1 v2 pV v1 ok, of False] v1 v2 unfolding none option.case
    by (elim exE conjE, intro exI conjI) (simp_all add: deref_v_def split: if_splits)
qed

text \<open>The claim as stated fails on the same input: the new edge enters the candidate list
  of vertex 1 and not that of vertex 5, and an immediate second call with the same pair
  reaches the new edge in the list and follows its empty slot 0.\<close>

theorem create_edge_counterexample:
  "case create_edge False quad_mesh (Some 0) (Some 4) of
     None \<Rightarrow> False
   | Some (e, m') \<Rightarrow>
       map_option v_ledges (deref_v m' (Some 0)) = Some [0, 1, 4, e] \<and>
       map_option v_ledges (deref_v m' (Some 4)) = Some [] \<and>
       create_edge False m' (Some 0) (Some 4) = None"
  by code_simp

subsection \<open>\<open>create_face\<close> on an edge whose two slots are filled\<close>

lemma for_each_append:
  "for_each (xs @ ys) body m = Option.bind (for_each xs body m) (for_each ys body)"
  by (induction xs arbitrary: m) (auto split: Option.bind_splits)

lemma for_each_frame:
  assumes "\<And>x a b. body x a = Some b \<Longrightarrow> P a \<Longrightarrow> P b"
  shows "for_each xs body m = Some m' \<Longrightarrow> P m \<Longrightarrow> P m'"
  by (induction xs arbitrary: m) (auto split: Option.bind_splits dest: assms)

lemma create_halfedges_m_faces:
  "create_halfedges m vs = Some (hes, m') \<Longrightarrow> m_faces m' = m_faces m"
proof (induction vs arbitrary: m hes m')
  case Nil
  then show ?case by simp
next
  case (Cons v vs)
  then show ?case
    by (fastforce simp: new_CHalfEdge_def upd_h_def upd_v_def deref_h_def deref_v_def
        split: Option.bind_splits prod.splits)
qed

lemma link_halfedge_m_faces: "link_halfedge hes i a = Some b \<Longrightarrow> m_faces b = m_faces a"
  by (auto simp: link_halfedge_def upd_h_def split: Option.bind_splits)

lemma link_face_m_faces: "link_face f hes i a = Some b \<Longrightarrow> m_faces b = m_faces a"
  by (auto simp: link_face_def upd_h_def upd_f_def split: Option.bind_splits)

lemma create_face_cycle_m_faces:
  assumes "create_face_cycle m vs ident = Some (f, hes, m7)"
  shows "m_faces m7 = m_faces m @ [f]"
proof -
  from assms obtain m2 m5 m6 where
    m2: "upd_f (snd (new_CFace m)) (Some f) (\<lambda>r. r\<lparr>f_id := ident\<rparr>) = Some m2" "f = fst (new_CFace m)"
    and m5: "create_halfedges (m2\<lparr>m_faces := m_faces m2 @ [f],
         m_map_face := map_insert (m_map_face m2) ident (Some f)\<rparr>) vs = Some (hes, m5)"
    and m6: "for_each [0..<length hes] (link_halfedge hes) m5 = Some m6"
    and m7: "for_each [0..<length hes] (link_face f hes) m6 = Some m7"
    by (auto simp: create_face_cycle_def Let_def split: Option.bind_splits prod.splits)
  have "m_faces m2 = m_faces m"
    using m2 by (auto simp: upd_f_def new_CFace_def split: Option.bind_splits)
  moreover have "m_faces m5 = m_faces m2 @ [f]"
    using create_halfedges_m_faces [OF m5] by simp
  moreover have "m_faces m6 = m_faces m5"
    using for_each_frame [where P = "\<lambda>a. m_faces a = m_faces m5", OF _ m6] link_halfedge_m_faces
    by simp
  moreover have "m_faces m7 = m_faces m6"
    using for_each_frame [where P = "\<lambda>a. m_faces a = m_faces m6", OF _ m7] link_face_m_faces
    by simp
  ultimately show ?thesis by simp
qed

lemma create_edge_console: "create_edge nd m a b = Some (e, m') \<Longrightarrow> console m' = console m"
  by (auto simp: create_edge_def Let_def new_CEdge_def upd_v_def
      split: Option.bind_splits option.splits prod.splits)

lemma some_the: "(case x of None \<Rightarrow> False | Some _ \<Rightarrow> True) \<Longrightarrow> x = Some (the x)"
  by (cases x) auto

text \<open>Claim C5, amended. Let \<open>create_face\<close> have allocated the face and run its first three
  loops (\<open>create_face_cycle\<close>), let the edges of the pairs before index \<open>i\<close> be connected, and
  let the edge that \<open>create_edge\<close> returns for pair \<open>i\<close> have both slots filled. By then the
  mesh is changed: the face is appended to the face list. With assertions enabled the
  call does not return: the \<open>assert\<close> aborts the program. With assertions compiled out
  (\<open>NDEBUG\<close>) the step prints \<open>Illegal Face Construction\<close> with the face id and overwrites
  slot 1 of the edge with the new half-edge; the loop goes on with the remaining pairs,
  and the call returns the face exactly when the steps for these pairs complete, with
  the mesh they leave.\<close>

theorem create_face_full_edge:
  assumes cyc: "create_face_cycle m vs ident = Some (f, hes, m7)"
    and i: "i < length hes"
    and pre: "for_each [0..<i] (connect_edge nd vs hes ident) m7 = Some mi"
    and ce: "create_edge nd mi (vs ! i) (vs ! ((i + length hes - 1) mod length hes)) = Some (e, mi')"
    and r: "deref_e mi' (Some e) = Some r" and s0: "e_halfedge0 r \<noteq> None" and s1: "e_halfedge1 r \<noteq> None"
    and h: "deref_h mi' (Some (hes ! i)) \<noteq> None"
  shows "m_faces m7 = m_faces m @ [f] \<and> num_faces m7 = num_faces m + 1 \<and>
         (if nd
          then \<exists>m''. connect_edge nd vs hes ident i mi = Some m'' \<and>
                 console m'' = console mi @ [Illegal_Face_Construction ident] \<and>
                 deref_e m'' (Some e) = Some (r\<lparr>e_halfedge1 := Some (hes ! i)\<rparr>) \<and>
                 create_face nd m vs ident =
                   map_option (Pair f) (for_each [Suc i..<length hes] (connect_edge nd vs hes ident) m'')
          else create_face nd m vs ident = None)"
proof -
  have faces: "m_faces m7 = m_faces m @ [f]" "num_faces m7 = num_faces m + 1"
    using create_face_cycle_m_faces [OF cyc] by (simp_all add: num_faces_def)
  have split: "[0..<length hes] = [0..<i] @ i # [Suc i..<length hes]"
    using i by (metis le_add2 le_add_same_cancel2 less_imp_add_positive upt_add_eq_append upt_conv_Cons)
  obtain a b where ab: "e_halfedge0 r = Some a" "e_halfedge1 r = Some b"
    using s0 s1 by auto
  show ?thesis
  proof (cases nd)
    case True
    obtain hr where hr: "deref_h mi' (Some (hes ! i)) = Some hr" using h by auto
    define m'' where "m'' = mi'\<lparr>console := console mi' @ [Illegal_Face_Construction ident],
                edge_heap := (edge_heap mi')(e \<mapsto> r\<lparr>e_halfedge1 := Some (hes ! i)\<rparr>),
                halfedge_heap := (halfedge_heap mi')(hes ! i \<mapsto> hr\<lparr>h_edge := Some e\<rparr>)\<rparr>"
    have step: "connect_edge nd vs hes ident i mi = Some m''"
      using ce r ab hr True unfolding m''_def
      by (auto simp: connect_edge_def e_halfedge_def set_e_halfedge_def deref_e_def deref_h_def
          assert_that_def upd_e_def upd_h_def split: if_splits)
    have out: "console m'' = console mi @ [Illegal_Face_Construction ident]"
      "deref_e m'' (Some e) = Some (r\<lparr>e_halfedge1 := Some (hes ! i)\<rparr>)"
      using create_edge_console [OF ce] r unfolding m''_def
      by (auto simp: deref_e_def split: if_splits)
    have "for_each [0..<length hes] (connect_edge nd vs hes ident) m7
          = for_each [Suc i..<length hes] (connect_edge nd vs hes ident) m''"
      using pre step by (simp add: split for_each_append)
    then have "create_face nd m vs ident =
        map_option (Pair f) (for_each [Suc i..<length hes] (connect_edge nd vs hes ident) m'')"
      using cyc
      by (cases "for_each [Suc i..<length hes] (connect_edge nd vs hes ident) m''")
        (simp_all add: create_face_def)
    then show ?thesis
      using faces True step out by simp
  next
    case False
    have "connect_edge False vs hes ident i mi = None"
      using ce r ab False
      by (simp add: connect_edge_def e_halfedge_def assert_that_def)
    then have "for_each [0..<length hes] (connect_edge nd vs hes ident) m7 = None"
      using pre False by (simp add: split for_each_append)
    then show ?thesis
      using faces False cyc by (simp add: create_face_def)
  qed
qed

text \<open>The theorem on the example mesh, with assertions enabled: a third face over the
  vertices 1, 2 and 5 meets the edge between 1 and 2, which the two triangles fill.\<close>

theorem create_face_full_edge_witness:
  "create_face False quad_mesh [Some 0, Some 1, Some 4] 3 = None \<and>
   (\<exists>f hes m7. create_face_cycle quad_mesh [Some 0, Some 1, Some 4] 3 = Some (f, hes, m7) \<and>
      m_faces m7 = m_faces quad_mesh @ [f] \<and> num_faces m7 = num_faces quad_mesh + 1)"
proof -
  define vs :: "vptr list" where "vs = [Some 0, Some 1, Some 4]"
  define c where "c = the (create_face_cycle quad_mesh vs 3)"
  define hes where "hes = fst (snd c)"
  define m7 where "m7 = snd (snd c)"
  define mi where "mi = the (for_each [0..<1] (connect_edge False vs hes 3) m7)"
  define ce where "ce = the (create_edge False mi (vs ! 1) (vs ! ((1 + length hes - 1) mod length hes)))"
  define r where "r = the (deref_e (snd ce) (Some (fst ce)))"
  note defs = vs_def c_def hes_def m7_def mi_def ce_def r_def
  have "case create_face_cycle quad_mesh vs 3 of None \<Rightarrow> False | Some _ \<Rightarrow> True"
    unfolding defs by code_simp
  then have cyc: "create_face_cycle quad_mesh vs 3 = Some (fst c, hes, m7)"
    unfolding c_def hes_def m7_def by (simp add: some_the [symmetric])
  have i: "1 < length hes"
    unfolding defs by code_simp
  have "case for_each [0..<1] (connect_edge False vs hes 3) m7 of None \<Rightarrow> False | Some _ \<Rightarrow> True"
    unfolding defs by code_simp
  then have pre: "for_each [0..<1] (connect_edge False vs hes 3) m7 = Some mi"
    unfolding mi_def by (rule some_the)
  have "case create_edge False mi (vs ! 1) (vs ! ((1 + length hes - 1) mod length hes)) of
          None \<Rightarrow> False | Some _ \<Rightarrow> True"
    unfolding defs by code_simp
  then have ce: "create_edge False mi (vs ! 1) (vs ! ((1 + length hes - 1) mod length hes))
                 = Some (fst ce, snd ce)"
    unfolding ce_def by (simp add: some_the [symmetric])
  have "case deref_e (snd ce) (Some (fst ce)) of None \<Rightarrow> False | Some _ \<Rightarrow> True"
    unfolding defs by code_simp
  then have r: "deref_e (snd ce) (Some (fst ce)) = Some r"
    unfolding r_def by (rule some_the)
  have s0: "e_halfedge0 r \<noteq> None" unfolding defs by code_simp
  have s1: "e_halfedge1 r \<noteq> None" unfolding defs by code_simp
  have h: "deref_h (snd ce) (Some (hes ! 1)) \<noteq> None" unfolding defs by code_simp
  show ?thesis
    using create_face_full_edge [OF cyc i pre ce r s0 s1 h] cyc
    by (auto simp: vs_def)
qed

text \<open>The claim as stated fails with assertions compiled out: the same call returns the
  new face like any other, the mesh has one face more, one line has been printed, and
  slot 1 of the shared edge, which held half-edge 4, now holds the new half-edge 7.\<close>

theorem create_face_full_edge_counterexample:
  "case create_face True quad_mesh [Some 0, Some 1, Some 4] 3 of
     None \<Rightarrow> False
   | Some (f, m') \<Rightarrow>
       num_faces m' = num_faces quad_mesh + 1 \<and>
       console m' = [Illegal_Face_Construction 3] \<and>
       map_option e_halfedge1 (deref_e quad_mesh (Some 1)) = Some (Some 4) \<and>
       map_option e_halfedge1 (deref_e m' (Some 1)) = Some (Some 7)"
  by code_simp

subsection \<open>\<open>delete_face\<close>\<close>

text \<open>Claim C4 fails on the strip mesh, with assertions enabled, when the middle triangle
  is deleted. The call returns. Vertex 2 (address 1) had the deleted half-edge 7 as its
  representative; it is left with \<open>NULL\<close>, although half-edge 1 of the first triangle
  still targets it. The boundary edge 6 is deleted and taken out of the mesh's edge list,
  but it stays in the candidate list of vertex 2, so that a later \<open>create_edge\<close> between
  the vertices 2 and 4 follows the deleted edge. The three deleted half-edges also stay
  in the mesh's half-edge list.\<close>

theorem delete_face_strip_mesh:
  "case delete_face False strip_mesh (Some 2) of
     None \<Rightarrow> False
   | Some m' \<Rightarrow>
       map_option v_halfedge (deref_v strip_mesh (Some 1)) = Some (Some 7) \<and>
       map_option v_halfedge (deref_v m' (Some 1)) = Some None \<and>
       he_target m' (Some 1) = Some (Some 1) \<and>
       deref_e m' (Some 6) = None \<and>
       m_edges m' = [0, 1, 2, 3, 4, 5] \<and>
       map_option v_ledges (deref_v m' (Some 1)) = Some [2, 6] \<and>
       create_edge False m' (Some 1) (Some 3) = None \<and>
       m_halfedges m' = [0, 1, 2, 3, 4, 5, 6, 7, 8] \<and>
       map (\<lambda>h. deref_h m' (Some h)) [6, 7, 8] = [None, None, None]"
  by code_simp

subsection \<open>\<open>swapEdge\<close> on an interior edge\<close>

lemma swapEdge_interior:
  assumes "deref_e m (Some e) = Some r" and "e_halfedge1 r \<noteq> None"
  shows "swapEdge nd m (Some e) = None"
  using assms
  by (auto simp: swapEdge_def e_halfedge_def assert_that_def Let_def
      split: Option.bind_splits)

text \<open>Claim C2 fails on the example mesh, at the edge between the vertices 1 and 2 that the
  two triangles share: with or without assertions the call does not complete, because
  the function reaches the candidate lists through \<open>CVertex::edges()\<close>, a \<open>std::vector\<close>,
  cast to \<open>std::list&\<close>.\<close>

theorem swapEdge_quad_mesh:
  "deref_e quad_mesh (Some 1) = Some \<lparr>e_halfedge0 = Some 1, e_halfedge1 = Some 4\<rparr> \<and>
   swapEdge False quad_mesh (Some 1) = None \<and>
   swapEdge True quad_mesh (Some 1) = None"
  by code_simp

subsection \<open>\<open>CLoop::divide\<close>\<close>

text \<open>Claim C6 fails on the boundary loop of the example mesh when a marker is listed twice.
  With the markers \<open>(1, 1)\<close> the first segment takes the whole loop and ends at vertex 1;
  the round for the second marker then starts with \<open>queue.front()\<close> on the empty deque,
  which is undefined, before any test of \<open>queue.empty()\<close>: no error is reported. For
  comparison, with the markers \<open>(1, 3, 4)\<close>, which are not in loop order, the deque runs
  empty inside the second segment and the call returns after printing
  \<open>CLoop::divide error\<close>, with the first segment recorded and the loop itself unchanged.\<close>

theorem divide_quad_loop:
  "l_halfedges quad_loop = [Some 5, Some 3, Some 2, Some 0] \<and>
   divide False quad_labeled quad_loop [Some 0, Some 0] = None \<and>
   divide True quad_labeled quad_loop [Some 0, Some 0] = None \<and>
   divide False quad_labeled quad_loop [Some 0, Some 2, Some 3] =
     Some (quad_loop\<lparr>l_segments := [[Some 5, Some 3, Some 2]]\<rparr>, [CLoop_divide_error])"
  by code_simp

end
